theory Spec2Isabelle
  imports Main
begin

section \<open>Python strings\<close>

text \<open>
  A Python \<^verbatim>\<open>str\<close> is a sequence of code points and \<^verbatim>\<open>len\<close> counts them. The model
  uses \<^typ>\<open>string\<close>, one \<^typ>\<open>char\<close> per code point, so it covers the strings whose code
  points lie below 256. On that range \<open>isspace\<close>, \<open>lower\<close> and \<open>title\<close> are Python's
  \<^verbatim>\<open>str.isspace\<close>, \<^verbatim>\<open>str.lower\<close> and \<^verbatim>\<open>str.title\<close>, with one exception: the title-case
  forms of the code points 181 and 255 lie above 255 and are left as they are.
\<close>

type_synonym pydict = "string \<rightharpoonup> string"

definition dict_get :: "pydict \<Rightarrow> string \<Rightarrow> string \<Rightarrow> string" where
  \<comment> \<open>\<^verbatim>\<open>d.get(key, default)\<close>\<close>
  "dict_get d key dflt = (case d key of None \<Rightarrow> dflt | Some v \<Rightarrow> v)"

definition whitespace :: "char list" where
  "whitespace = [CHR 0x09, CHR 0x0A, CHR 0x0B, CHR 0x0C, CHR 0x0D, CHR 0x1C, CHR 0x1D,
                 CHR 0x1E, CHR 0x1F, CHR 0x20, CHR 0x85, CHR 0xA0]"

definition isspace :: "char \<Rightarrow> bool" where
  "isspace c = (c \<in> set whitespace)"

definition strip :: "string \<Rightarrow> string" where
  \<comment> \<open>\<^verbatim>\<open>s.strip()\<close>: leading and trailing whitespace removed\<close>
  "strip s = rev (dropWhile isspace (rev (dropWhile isspace s)))"

definition upper_letters :: string where
  "upper_letters = ''ABCDEFGHIJKLMNOPQRSTUVWXYZ'' @
     [CHR 0xC0, CHR 0xC1, CHR 0xC2, CHR 0xC3, CHR 0xC4, CHR 0xC5, CHR 0xC6, CHR 0xC7,
      CHR 0xC8, CHR 0xC9, CHR 0xCA, CHR 0xCB, CHR 0xCC, CHR 0xCD, CHR 0xCE, CHR 0xCF,
      CHR 0xD0, CHR 0xD1, CHR 0xD2, CHR 0xD3, CHR 0xD4, CHR 0xD5, CHR 0xD6,
      CHR 0xD8, CHR 0xD9, CHR 0xDA, CHR 0xDB, CHR 0xDC, CHR 0xDD, CHR 0xDE]"

definition lower_letters :: string where
  "lower_letters = ''abcdefghijklmnopqrstuvwxyz'' @
     [CHR 0xE0, CHR 0xE1, CHR 0xE2, CHR 0xE3, CHR 0xE4, CHR 0xE5, CHR 0xE6, CHR 0xE7,
      CHR 0xE8, CHR 0xE9, CHR 0xEA, CHR 0xEB, CHR 0xEC, CHR 0xED, CHR 0xEE, CHR 0xEF,
      CHR 0xF0, CHR 0xF1, CHR 0xF2, CHR 0xF3, CHR 0xF4, CHR 0xF5, CHR 0xF6,
      CHR 0xF8, CHR 0xF9, CHR 0xFA, CHR 0xFB, CHR 0xFC, CHR 0xFD, CHR 0xFE]"

definition lower_char :: "char \<Rightarrow> char" where
  "lower_char c = (case map_of (zip upper_letters lower_letters) c of Some l \<Rightarrow> l | None \<Rightarrow> c)"

definition lower :: "string \<Rightarrow> string" where
  \<comment> \<open>\<^verbatim>\<open>s.lower()\<close>\<close>
  "lower s = map lower_char s"

definition title_char :: "char \<Rightarrow> string" where
  \<comment> \<open>the title-case form of one code point; 223 becomes \<^verbatim>\<open>Ss\<close>\<close>
  "title_char c =
     (if c = CHR 0xDF then ''Ss''
      else case map_of (zip lower_letters upper_letters) c of Some u \<Rightarrow> [u] | None \<Rightarrow> [c])"

definition iscased :: "char \<Rightarrow> bool" where
  "iscased c = (c \<in> set upper_letters \<or> c \<in> set lower_letters
                \<or> c \<in> set [CHR 0xAA, CHR 0xB5, CHR 0xBA, CHR 0xDF, CHR 0xFF])"

fun title_from :: "bool \<Rightarrow> string \<Rightarrow> string" where
  "title_from previous_is_cased [] = []"
| "title_from previous_is_cased (c # cs) =
     (if previous_is_cased then [lower_char c] else title_char c) @ title_from (iscased c) cs"

definition title :: "string \<Rightarrow> string" where
  \<comment> \<open>\<^verbatim>\<open>s.title()\<close>\<close>
  "title s = title_from False s"

fun contains :: "string \<Rightarrow> string \<Rightarrow> bool" where
  \<comment> \<open>\<^verbatim>\<open>sub in s\<close>\<close>
  "contains sub [] = (sub = [])"
| "contains sub (c # cs) = (take (length sub) (c # cs) = sub \<or> contains sub cs)"

definition startswith :: "string \<Rightarrow> string \<Rightarrow> bool" where
  "startswith s pre = (take (length pre) s = pre)"

definition digit_char :: "nat \<Rightarrow> char" where
  "digit_char d = ''0123456789'' ! d"

function str_nat :: "nat \<Rightarrow> string" where
  \<comment> \<open>\<^verbatim>\<open>str(n)\<close> of a non-negative integer\<close>
  "str_nat n = (if n < 10 then [digit_char n] else str_nat (n div 10) @ [digit_char (n mod 10)])"
  by pat_completeness auto
termination
  by (relation "measure id") auto

declare str_nat.simps [simp del]

section \<open>Exceptions\<close>

text \<open>
  An exception is a value; \<open>str_exn\<close> is Python's \<^verbatim>\<open>str(e)\<close>, which the request handler
  reads to choose its error message.
\<close>

datatype exn =
    KeyError string
  | ValueError string
  | OSError string
  | UnboundLocalError string
  | Exception string

fun str_exn :: "exn \<Rightarrow> string" where
  "str_exn (KeyError k) = [CHR 0x27] @ k @ [CHR 0x27]"
| "str_exn (ValueError m) = m"
| "str_exn (OSError m) = m"
| "str_exn (UnboundLocalError m) = m"
| "str_exn (Exception m) = m"

definition subscript :: "pydict \<Rightarrow> string \<Rightarrow> exn + string" where
  \<comment> \<open>\<^verbatim>\<open>d[key]\<close>\<close>
  "subscript d key = (case d key of None \<Rightarrow> Inl (KeyError key) | Some v \<Rightarrow> Inr v)"

section \<open>Input validation\<close>

definition required_fields :: "string list" where
  "required_fields = [''pet_name'', ''pet_type'', ''pet_breed'']"

definition valid_pet_types :: "string list" where
  "valid_pet_types =
     [''dog'', ''cat'', ''bird'', ''rabbit'', ''hamster'', ''guinea pig'', ''ferret'', ''other'']"

definition field_missing :: "pydict \<Rightarrow> string \<Rightarrow> bool" where
  \<comment> \<open>\<^verbatim>\<open>not data.get(field) or not data[field].strip()\<close>\<close>
  "field_missing data field =
     (case data field of None \<Rightarrow> True | Some v \<Rightarrow> v = [] \<or> strip v = [])"

fun check_required :: "pydict \<Rightarrow> string list \<Rightarrow> string option" where
  \<comment> \<open>the loop over the required fields: the first one that is missing\<close>
  "check_required data [] = None"
| "check_required data (field # fields) =
     (if field_missing data field then Some field else check_required data fields)"

definition validate_input_data :: "pydict \<Rightarrow> exn + (bool \<times> string option)" where
  "validate_input_data data =
     (case check_required data required_fields of
        Some field \<Rightarrow> Inr (False, Some (''Missing required field: '' @ field))
      | None \<Rightarrow>
         (case subscript data ''pet_type'' of
            Inl e \<Rightarrow> Inl e
          | Inr pet_type \<Rightarrow>
             if lower pet_type \<notin> set valid_pet_types then Inr (False, Some ''Invalid pet type'')
             else
               (case subscript data ''pet_name'' of
                  Inl e \<Rightarrow> Inl e
                | Inr pet_name \<Rightarrow>
                   if length pet_name > 50
                   then Inr (False, Some ''Pet name too long (max 50 characters)'')
                   else if length (dict_get data ''behavior_desc'' []) > 2000
                   then Inr (False, Some ''Behavior description too long (max 2000 characters)'')
                   else Inr (True, None))))"

text \<open>The conditions of the validator's contract, in the words of the specification.\<close>

definition blank :: "pydict \<Rightarrow> string \<Rightarrow> bool" where
  \<comment> \<open>the field is absent, empty or made of whitespace only\<close>
  "blank data field = list_all isspace (dict_get data field [])"

definition same_ignoring_case :: "string \<Rightarrow> string \<Rightarrow> bool" where
  "same_ignoring_case a b = (lower a = lower b)"

definition known_pet_type :: "string \<Rightarrow> bool" where
  "known_pet_type t = list_ex (same_ignoring_case t) valid_pet_types"

definition violates :: "pydict \<Rightarrow> bool" where
  "violates data =
     (blank data ''pet_name'' \<or> blank data ''pet_type'' \<or> blank data ''pet_breed''
      \<or> \<not> known_pet_type (dict_get data ''pet_type'' [])
      \<or> length (dict_get data ''pet_name'' []) > 50
      \<or> length (dict_get data ''behavior_desc'' []) > 2000)"

section \<open>Prompt construction\<close>

text \<open>
  The template's pictographs, bullets, dash and curly quotes have code points above 255.
  They are fixed decoration; each is carried as the bytes of its UTF-8 encoding.
\<close>

definition glyph_paws :: string where "glyph_paws = [CHR 0xF0, CHR 0x9F, CHR 0x90, CHR 0xBE]"
definition glyph_bullet :: string where "glyph_bullet = [CHR 0xE2, CHR 0x80, CHR 0xA2]"
definition glyph_clipboard :: string where "glyph_clipboard = [CHR 0xF0, CHR 0x9F, CHR 0x93, CHR 0x8B]"
definition glyph_camera :: string where "glyph_camera = [CHR 0xF0, CHR 0x9F, CHR 0x8E, CHR 0xA5]"
definition glyph_brain :: string where "glyph_brain = [CHR 0xF0, CHR 0x9F, CHR 0xA7, CHR 0xA0]"
definition glyph_eyes :: string where "glyph_eyes = [CHR 0xF0, CHR 0x9F, CHR 0x91, CHR 0x80]"
definition glyph_bulb :: string where "glyph_bulb = [CHR 0xF0, CHR 0x9F, CHR 0x92, CHR 0xA1]"
definition glyph_en_dash :: string where "glyph_en_dash = [CHR 0xE2, CHR 0x80, CHR 0x93]"
definition glyph_left_quote :: string where "glyph_left_quote = [CHR 0xE2, CHR 0x80, CHR 0x9C]"
definition glyph_right_quote :: string where "glyph_right_quote = [CHR 0xE2, CHR 0x80, CHR 0x9D]"
definition glyph_check :: string where "glyph_check = [CHR 0xE2, CHR 0x9C, CHR 0x85]"
definition glyph_star :: string where "glyph_star = [CHR 0xF0, CHR 0x9F, CHR 0x8C, CHR 0x9F]"
definition glyph_warning :: string where
  "glyph_warning = [CHR 0xE2, CHR 0x9A, CHR 0xA0, CHR 0xEF, CHR 0xB8, CHR 0x8F]"

record insights =
  behaviors :: string
  emotions :: string
  health_indicators :: string

definition dog_insights :: insights where
  "dog_insights = \<lparr>
     behaviors = ''tail wagging patterns, ear positioning, play bows, panting, barking types'',
     emotions = ''excitement, anxiety, fear, dominance, submission, contentment'',
     health_indicators = ''gait analysis, breathing patterns, appetite changes, energy levels''\<rparr>"

definition cat_insights :: insights where
  "cat_insights = \<lparr>
     behaviors = ''purring intensity, tail movements, ear positioning, kneading, vocalizations'',
     emotions = ''contentment, stress, territorial behavior, affection seeking, hunting instincts'',
     health_indicators = ''grooming habits, litter box behavior, appetite, hiding patterns''\<rparr>"

definition bird_insights :: insights where
  "bird_insights = \<lparr>
     behaviors = ''wing positioning, head movements, vocalizations, preening, perching habits'',
     emotions = ''excitement, stress, bonding behaviors, territorial displays'',
     health_indicators = ''feather condition, breathing patterns, eating habits, activity levels''\<rparr>"

definition rabbit_insights :: insights where
  "rabbit_insights = \<lparr>
     behaviors = ''binky movements, thumping, grooming, digging, chinning'',
     emotions = ''happiness, fear, territorial behavior, social bonding'',
     health_indicators = ''eating patterns, litter habits, mobility, alertness''\<rparr>"

definition pet_type_insights :: "(string \<times> insights) list" where
  "pet_type_insights =
     [(''dog'', dog_insights), (''cat'', cat_insights),
      (''bird'', bird_insights), (''rabbit'', rabbit_insights)]"

definition lookup_insights :: "string \<Rightarrow> insights" where
  \<comment> \<open>\<^verbatim>\<open>pet_type_insights.get(pet_type.lower(), pet_type_insights['dog'])\<close>\<close>
  "lookup_insights pet_type =
     (case map_of pet_type_insights (lower pet_type) of Some i \<Rightarrow> i | None \<Rightarrow> dog_insights)"

definition newline :: string where
  "newline = [CHR 0x0A]"

definition prompt_lines ::
  "string \<Rightarrow> pydict \<Rightarrow> string \<Rightarrow> string \<Rightarrow> string \<Rightarrow> string \<Rightarrow> insights \<Rightarrow> string list" where
  \<comment> \<open>the lines of the template between the opening and the closing quotes\<close>
  "prompt_lines now pet_data pet_name pet_type pet_breed video_analysis species_info =
     [''You are PetPsych AI, an advanced animal behavior analyst with expertise in veterinary psychology, ethology, and animal cognition. Analyze the following pet's behavioral patterns with scientific rigor and compassionate understanding.'',
      [],
      glyph_paws @ '' SUBJECT PROFILE:'',
      glyph_bullet @ '' Name: '' @ pet_name,
      glyph_bullet @ '' Species: '' @ title pet_type,
      glyph_bullet @ '' Breed: '' @ pet_breed,
      glyph_bullet @ '' Analysis Date: '' @ now,
      [],
      glyph_clipboard @ '' BEHAVIORAL OBSERVATIONS:'',
      ''Primary Behavior: '' @ dict_get pet_data ''behavior_desc'' ''Not specified'',
      ''Vocal Cues: '' @ dict_get pet_data ''vocal_cues'' ''Not specified'',
      ''What user wants to know: '' @ dict_get pet_data ''query'' ''Not specified'',
      [],
      (if video_analysis \<noteq> [] then glyph_camera @ '' VIDEO ANALYSIS: '' @ video_analysis else []),
      [],
      glyph_brain @ '' ANALYSIS FRAMEWORK:'',
      ''For '' @ pet_type @ '' behavioral analysis, focus on:'',
      glyph_bullet @ '' Key Behaviors: '' @ behaviors species_info,
      glyph_bullet @ '' Emotional States: '' @ emotions species_info,
      glyph_bullet @ '' Health Indicators: '' @ health_indicators species_info,
      [],
      ''1. '' @ glyph_eyes @ '' What I Saw (Behavior)'',
      [],
      ''Short list of the key behaviors (e.g., pacing near door, whining, no tail wagging).'',
      [],
      ''Simple context (when, where).'',
      [],
      ''2. '' @ glyph_brain @ '' What It Could Mean (Possible Reasons)'',
      [],
      ''Emotional state (happy, anxious, restless, curious).'',
      [],
      ''Everyday needs (bathroom, food, play, comfort).'',
      [],
      ''Possible health-related concerns (if relevant).'',
      [],
      ''3. '' @ glyph_bulb @ '' What You Should Try (Next Steps)'',
      [],
      ''2'' @ glyph_en_dash @ ''4 clear, actionable suggestions.'',
      [],
      ''Split into: '' @ glyph_left_quote @ ''Do Now'' @ glyph_right_quote @ '' '' @ glyph_check @ '' and '' @ glyph_left_quote @ ''Optional/Extra'' @ glyph_right_quote @ '' '' @ glyph_star @ ''.'',
      [],
      ''4. '' @ glyph_warning @ '' Watch Out For (Red Flags)'',
      [],
      ''Quick bullet list of signs that mean: '' @ glyph_left_quote @ ''Time to see a vet/behaviorist.'' @ glyph_right_quote,
      [],
      ''Please provide a thorough, compassionate analysis that helps '' @ pet_name @ [CHR 0x27] @ ''s human understand their behavioral patterns and strengthens their bond through better communication.'']"

definition prompt_text ::
  "string \<Rightarrow> pydict \<Rightarrow> string \<Rightarrow> string \<Rightarrow> string \<Rightarrow> string \<Rightarrow> insights \<Rightarrow> string" where
  \<comment> \<open>the formatted string: a newline, then every line followed by a newline\<close>
  "prompt_text now pet_data pet_name pet_type pet_breed video_analysis species_info =
     newline @ concat (map (\<lambda>l. l @ newline)
       (prompt_lines now pet_data pet_name pet_type pet_breed video_analysis species_info))"

definition create_enhanced_prompt :: "string \<Rightarrow> pydict \<Rightarrow> string \<Rightarrow> exn + string" where
  \<comment> \<open>\<open>now\<close> is \<^verbatim>\<open>datetime.now().strftime('%Y-%m-%d %H:%M')\<close>\<close>
  "create_enhanced_prompt now pet_data video_analysis =
     (case subscript pet_data ''pet_type'' of
        Inl e \<Rightarrow> Inl e
      | Inr pet_type \<Rightarrow>
         (let species_info = lookup_insights pet_type in
          case subscript pet_data ''pet_name'' of
            Inl e \<Rightarrow> Inl e
          | Inr pet_name \<Rightarrow>
             (case subscript pet_data ''pet_breed'' of
                Inl e \<Rightarrow> Inl e
              | Inr pet_breed \<Rightarrow>
                 Inr (strip (prompt_text now pet_data pet_name pet_type pet_breed
                              video_analysis species_info)))))"

section \<open>Video summary\<close>

datatype video_data = PyNone | PyStr string | PyBytes "nat list"

fun falsy :: "video_data \<Rightarrow> bool" where
  \<comment> \<open>\<^verbatim>\<open>not video_data\<close>\<close>
  "falsy PyNone = True"
| "falsy (PyStr s) = (s = [])"
| "falsy (PyBytes b) = (b = [])"

fun video_size :: "video_data \<Rightarrow> nat" where
  \<comment> \<open>\<^verbatim>\<open>len(video_data) if isinstance(video_data, str) else 0\<close>\<close>
  "video_size (PyStr s) = length s"
| "video_size _ = 0"

definition high_quality_sentence :: string where
  "high_quality_sentence =
     ''High-quality video footage analyzed showing detailed behavioral patterns and environmental context.''"

definition clear_indicators_sentence :: string where
  "clear_indicators_sentence =
     ''Video footage analyzed showing clear behavioral indicators and movement patterns.''"

definition brief_clip_sentence :: string where
  "brief_clip_sentence = ''Brief video clip analyzed providing supplementary visual context.''"

text \<open>
  No statement of the function's \<^verbatim>\<open>try\<close> block can raise on these inputs, so its
  \<^verbatim>\<open>except\<close> branch has no counterpart here.
\<close>

definition analyze_video_content :: "video_data \<Rightarrow> string" where
  "analyze_video_content video_data =
     (if falsy video_data then []
      else if video_size video_data > 1000000 then high_quality_sentence
      else if video_size video_data > 100000 then clear_indicators_sentence
      else brief_clip_sentence)"

section \<open>Generation with retries\<close>

text \<open>
  The generation service is outside the program. \<open>service\<close> gives the outcome of its
  \<open>k\<close>-th call (counted from 0) on a prompt: it raises, or it returns a response whose
  text may be empty.
\<close>

datatype outcome = Raises exn | Response string

type_synonym service = "nat \<Rightarrow> string \<Rightarrow> outcome"

definition attempt_once :: "outcome \<Rightarrow> exn + string" where
  \<comment> \<open>the body of the \<^verbatim>\<open>try\<close>: a non-empty text leaves the loop, anything else raises\<close>
  "attempt_once r =
     (case r of
        Raises e \<Rightarrow> Inl e
      | Response text \<Rightarrow>
          if text \<noteq> [] then Inr text else Inl (Exception ''Empty response from AI model''))"

definition unavailable :: exn where
  "unavailable = Exception ''AI service temporarily unavailable. Please try again.''"

fun retry_loop :: "service \<Rightarrow> string \<Rightarrow> nat \<Rightarrow> nat list \<Rightarrow> nat \<Rightarrow> (exn + string) \<times> nat" where
  \<comment> \<open>the loop over \<^verbatim>\<open>range(max_retries)\<close>; \<open>calls\<close> counts the calls made to the service\<close>
  "retry_loop svc prompt max_retries [] calls =
     (Inl (UnboundLocalError ''response''), calls)"
| "retry_loop svc prompt max_retries (attempt # rest) calls =
     (case attempt_once (svc calls prompt) of
        Inr text \<Rightarrow> (Inr text, Suc calls)
      | Inl e \<Rightarrow>
          if attempt = max_retries - 1 then (Inl unavailable, Suc calls)
          else retry_loop svc prompt max_retries rest (Suc calls))"

definition max_retries :: nat where
  "max_retries = 3"

definition generate :: "service \<Rightarrow> string \<Rightarrow> (exn + string) \<times> nat" where
  \<comment> \<open>the generated text or the exception raised, and the number of calls made\<close>
  "generate svc prompt = retry_loop svc prompt max_retries [0..<max_retries] 0"

definition fails :: "outcome \<Rightarrow> bool" where
  \<comment> \<open>the attempt raised or returned an empty result\<close>
  "fails r = (case r of Raises e \<Rightarrow> True | Response text \<Rightarrow> text = [])"

section \<open>The request handler\<close>

text \<open>
  What lies outside the program during one request: the clock, the file system calls'
  outcomes, the library functions \<^verbatim>\<open>secure_filename\<close> and \<^verbatim>\<open>base64.b64decode\<close>
  (\<open>None\<close> when it raises), and the generation service. The files on disk are the set of
  their paths. A save that raises may or may not leave a file behind.
\<close>

datatype save_outcome = Saved | Save_raises bool

record env =
  clock :: nat
  now :: string
  secure_filename :: "string \<Rightarrow> string"
  file_save :: save_outcome
  os_getsize :: "nat option"
  os_remove :: bool
  b64decode :: "string \<Rightarrow> nat list option"
  generate_content :: service

record request =
  form :: pydict
  video_file :: "string option"

text \<open>
  The JSON body and the status of a response. The fields read from the clock (timestamp,
  processing time, analysis identifier) are left out.
\<close>

record response =
  status :: nat
  success :: bool
  analysis :: "string option"
  error :: "string option"
  error_code :: "string option"
  pet_name :: "string option"
  pet_type :: "string option"

type_synonym files = "string set"

definition allowed_extensions :: "string list" where
  "allowed_extensions = [''mp4'', ''avi'', ''mov'', ''webm'', ''mkv'']"

definition upload_folder :: string where
  "upload_folder = ''static/uploads''"

definition extension :: "string \<Rightarrow> string" where
  \<comment> \<open>\<^verbatim>\<open>filename.rsplit('.', 1)[1]\<close> of a name with a dot: what follows the last dot\<close>
  "extension filename = rev (takeWhile (\<lambda>c. c \<noteq> CHR ''.'') (rev filename))"

definition allowed_file :: "string \<Rightarrow> bool" where
  "allowed_file filename =
     (CHR ''.'' \<in> set filename \<and> lower (extension filename) \<in> set allowed_extensions)"

definition extract_pet_data :: "pydict \<Rightarrow> pydict" where
  \<comment> \<open>every entry is \<^verbatim>\<open>request.form.get(key, '').strip()\<close>\<close>
  "extract_pet_data f =
     [''pet_name'' \<mapsto> strip (dict_get f ''pet_name'' []),
      ''pet_type'' \<mapsto> strip (dict_get f ''pet_type'' []),
      ''pet_breed'' \<mapsto> strip (dict_get f ''pet_breed'' []),
      ''behavior_desc'' \<mapsto> strip (dict_get f ''behavior_desc'' []),
      ''vocal_cues'' \<mapsto> strip (dict_get f ''vocal_cues'' []),
      ''context'' \<mapsto> strip (dict_get f ''context'' [])]"

definition video_path :: "env \<Rightarrow> string \<Rightarrow> string" where
  "video_path e filename =
     upload_folder @ ''/'' @ ''video_'' @ str_nat (clock e) @ ''_'' @ secure_filename e filename"

definition duration_estimate :: "nat \<Rightarrow> string" where
  "duration_estimate file_size =
     (if file_size < 5000000 then ''short''
      else if file_size < 20000000 then ''medium'' else ''long'')"

definition upload_summary :: "nat \<Rightarrow> string" where
  "upload_summary file_size =
     ''Uploaded video file analyzed ('' @ duration_estimate file_size @ '' duration, ''
       @ str_nat (file_size div 1024) @ ''KB). ''
       @ ''Visual behavioral patterns and environmental context extracted from footage.''"

definition upload_fallback :: string where
  "upload_fallback =
     ''Video upload encountered processing issues but analysis continues with provided descriptions.''"

definition captured_fallback :: string where
  "captured_fallback = ''Live captured video provided additional behavioral context.''"

definition save_and_inspect :: "env \<Rightarrow> string \<Rightarrow> files \<Rightarrow> (exn + string) \<times> files" where
  \<comment> \<open>the \<^verbatim>\<open>try\<close> block of the uploaded file: save, read the size, describe, remove\<close>
  "save_and_inspect e filename fs =
     (let path = video_path e filename in
      case file_save e of
        Save_raises left \<Rightarrow> (Inl (OSError ''save''), if left then insert path fs else fs)
      | Saved \<Rightarrow>
         (let fs1 = insert path fs in
          case os_getsize e of
            None \<Rightarrow> (Inl (OSError ''getsize''), fs1)
          | Some file_size \<Rightarrow>
              (Inr (upload_summary file_size), if os_remove e then fs1 - {path} else fs1)))"

definition process_upload :: "env \<Rightarrow> string \<Rightarrow> files \<Rightarrow> string \<times> files" where
  \<comment> \<open>the \<^verbatim>\<open>try\<close> block with its \<^verbatim>\<open>except Exception\<close>\<close>
  "process_upload e filename fs =
     (case save_and_inspect e filename fs of
        (Inl ex, fs') \<Rightarrow> (upload_fallback, fs')
      | (Inr video_analysis, fs') \<Rightarrow> (video_analysis, fs'))"

definition split_comma :: "string \<Rightarrow> exn + (string \<times> string)" where
  \<comment> \<open>\<^verbatim>\<open>header, video_data = s.split(',', 1)\<close>\<close>
  "split_comma s =
     (if CHR '','' \<in> set s
      then Inr (takeWhile (\<lambda>c. c \<noteq> CHR '','') s, tl (dropWhile (\<lambda>c. c \<noteq> CHR '','') s))
      else Inl (ValueError ''not enough values to unpack (expected 2, got 1)''))"

definition decode_and_summarize :: "env \<Rightarrow> string \<Rightarrow> exn + string" where
  \<comment> \<open>the \<^verbatim>\<open>try\<close> block of the captured video\<close>
  "decode_and_summarize e captured_video =
     (case split_comma captured_video of
        Inl ex \<Rightarrow> Inl ex
      | Inr (header, video_data) \<Rightarrow>
         (case b64decode e video_data of
            None \<Rightarrow> Inl (ValueError ''Incorrect padding'')
          | Some video_bytes \<Rightarrow> Inr (analyze_video_content (PyStr video_data))))"

definition process_captured :: "env \<Rightarrow> string \<Rightarrow> string" where
  "process_captured e captured_video =
     (case decode_and_summarize e captured_video of
        Inl ex \<Rightarrow> captured_fallback
      | Inr video_analysis \<Rightarrow> video_analysis)"

definition accepted_upload :: "request \<Rightarrow> string option" where
  \<comment> \<open>the uploaded file's name when
     \<^verbatim>\<open>video_file and video_file.filename and allowed_file(video_file.filename)\<close> holds\<close>
  "accepted_upload req =
     (case video_file req of
        None \<Rightarrow> None
      | Some filename \<Rightarrow> if filename \<noteq> [] \<and> allowed_file filename then Some filename else None)"

definition has_captured :: "request \<Rightarrow> bool" where
  \<comment> \<open>\<^verbatim>\<open>captured_video and captured_video.startswith('data:video')\<close>\<close>
  "has_captured req =
     (let captured_video = dict_get (form req) ''captured_video'' [] in
      captured_video \<noteq> [] \<and> startswith captured_video ''data:video'')"

definition process_video :: "env \<Rightarrow> request \<Rightarrow> files \<Rightarrow> string \<times> files" where
  \<comment> \<open>the two video blocks of the handler, one after the other\<close>
  "process_video e req fs =
     (let (video_analysis, fs') =
            (case accepted_upload req of
               Some filename \<Rightarrow> process_upload e filename fs
             | None \<Rightarrow> ([], fs))
      in if has_captured req
         then (process_captured e (dict_get (form req) ''captured_video'' []), fs')
         else (video_analysis, fs'))"

definition user_message :: "string \<Rightarrow> string" where
  "user_message error_msg =
     (if contains ''quota'' (lower error_msg) \<or> contains ''limit'' (lower error_msg)
      then ''Service temporarily at capacity. Please try again in a few minutes.''
      else if contains ''network'' (lower error_msg) \<or> contains ''connection'' (lower error_msg)
      then ''Network connectivity issue. Please check your connection and try again.''
      else if contains ''invalid'' (lower error_msg)
      then ''Invalid input provided. Please check your entries and try again.''
      else ''Analysis service temporarily unavailable. Please try again.'')"

definition error_response :: "exn \<Rightarrow> response" where
  \<comment> \<open>the handler's outer \<^verbatim>\<open>except Exception\<close>\<close>
  "error_response ex =
     \<lparr>status = 500, success = False, analysis = None,
      error = Some (user_message (str_exn ex)), error_code = Some ''ANALYSIS_ERROR'',
      pet_name = None, pet_type = None\<rparr>"

definition invalid_response :: "string \<Rightarrow> response" where
  "invalid_response error_message =
     \<lparr>status = 400, success = False, analysis = None,
      error = Some (''Invalid input: '' @ error_message), error_code = None,
      pet_name = None, pet_type = None\<rparr>"

definition success_response :: "pydict \<Rightarrow> string \<Rightarrow> response" where
  "success_response pet_data text =
     \<lparr>status = 200, success = True, analysis = Some text, error = None, error_code = None,
      pet_name = pet_data ''pet_name'', pet_type = pet_data ''pet_type''\<rparr>"

definition analyze_behavior_body :: "env \<Rightarrow> request \<Rightarrow> files \<Rightarrow> (exn + response) \<times> files" where
  \<comment> \<open>the handler's outer \<^verbatim>\<open>try\<close> block\<close>
  "analyze_behavior_body e req fs =
     (let pet_data = extract_pet_data (form req) in
      case validate_input_data pet_data of
        Inl ex \<Rightarrow> (Inl ex, fs)
      | Inr (is_valid, error_message) \<Rightarrow>
          if \<not> is_valid
          then (Inr (invalid_response (case error_message of None \<Rightarrow> ''None'' | Some m \<Rightarrow> m)), fs)
          else
            (let (video_analysis, fs') = process_video e req fs in
             case create_enhanced_prompt (now e) pet_data video_analysis of
               Inl ex \<Rightarrow> (Inl ex, fs')
             | Inr prompt \<Rightarrow>
                 (case fst (generate (generate_content e) prompt) of
                    Inl ex \<Rightarrow> (Inl ex, fs')
                  | Inr text \<Rightarrow> (Inr (success_response pet_data text), fs'))))"

definition analyze_behavior :: "env \<Rightarrow> request \<Rightarrow> files \<Rightarrow> response \<times> files" where
  "analyze_behavior e req fs =
     (case analyze_behavior_body e req fs of
        (Inl ex, fs') \<Rightarrow> (error_response ex, fs')
      | (Inr r, fs') \<Rightarrow> (r, fs'))"

definition built_prompt :: "env \<Rightarrow> request \<Rightarrow> files \<Rightarrow> string" where
  \<comment> \<open>the prompt the handler passes to the service: the record and the video summary\<close>
  "built_prompt e req fs =
     (case create_enhanced_prompt (now e) (extract_pet_data (form req))
             (fst (process_video e req fs)) of
        Inr prompt \<Rightarrow> prompt | Inl ex \<Rightarrow> [])"

definition passes_validation :: "request \<Rightarrow> bool" where
  "passes_validation req = (validate_input_data (extract_pet_data (form req)) = Inr (True, None))"

section \<open>The validator's checks, as the specification lists them\<close>

definition checks :: "pydict \<Rightarrow> (bool \<times> string) list" where
  \<comment> \<open>each check with the message reported when it fails, in the order of the validator\<close>
  "checks data =
     [(blank data ''pet_name'', ''Missing required field: pet_name''),
      (blank data ''pet_type'', ''Missing required field: pet_type''),
      (blank data ''pet_breed'', ''Missing required field: pet_breed''),
      (\<not> known_pet_type (dict_get data ''pet_type'' []), ''Invalid pet type''),
      (length (dict_get data ''pet_name'' []) > 50, ''Pet name too long (max 50 characters)''),
      (length (dict_get data ''behavior_desc'' []) > 2000,
         ''Behavior description too long (max 2000 characters)'')]"

definition first_failure :: "(bool \<times> string) list \<Rightarrow> string option" where
  "first_failure cs = map_option snd (find fst cs)"

section \<open>Concrete requests and environments\<close>

text \<open>
  The library functions of these environments are fixed where the examples call them:
  \<^verbatim>\<open>secure_filename\<close> leaves the name \<^verbatim>\<open>clip.mp4\<close> as it is, and the base64 text
  \<^verbatim>\<open>AAAA\<close> decodes to three zero bytes.
\<close>

definition rex_form :: pydict where
  "rex_form = [''pet_name'' \<mapsto> ''Rex'', ''pet_type'' \<mapsto> ''dog'', ''pet_breed'' \<mapsto> ''Lab'']"

definition lizard_form :: pydict where
  "lizard_form = [''pet_name'' \<mapsto> [], ''pet_type'' \<mapsto> ''lizard'', ''pet_breed'' \<mapsto> ''Gecko'']"

definition happy_service :: service where
  "happy_service k prompt = Response ''Rex seems happy.''"

definition second_try_service :: service where
  "second_try_service k prompt = (if k = 1 then Response ''Rex seems happy.'' else Response [])"

definition empty_service :: service where
  "empty_service k prompt = Response []"

definition quota_service :: service where
  "quota_service k prompt = Raises (Exception ''429 Quota exceeded for quota metric'')"

definition calm_env :: env where
  "calm_env =
     \<lparr>clock = 1700000000, now = ''2025-01-01 12:00'', secure_filename = (\<lambda>name. name),
      file_save = Saved, os_getsize = Some 2048, os_remove = True,
      b64decode = (\<lambda>text. if text = ''AAAA'' then Some [0, 0, 0] else None),
      generate_content = happy_service\<rparr>"

definition rex_request :: request where
  "rex_request = \<lparr>form = rex_form, video_file = None\<rparr>"

definition upload_request :: request where
  "upload_request = \<lparr>form = rex_form, video_file = Some ''clip.mp4''\<rparr>"

definition both_request :: request where
  "both_request =
     \<lparr>form = rex_form(''captured_video'' \<mapsto> ''data:video/webm;base64,AAAA''),
      video_file = Some ''clip.mp4''\<rparr>"

definition hamster_data :: pydict where
  "hamster_data =
     [''pet_name'' \<mapsto> ''Nibbles'', ''pet_type'' \<mapsto> ''Hamster'', ''pet_breed'' \<mapsto> ''Syrian'']"

definition barking_form :: pydict where
  "barking_form = rex_form(''context'' \<mapsto> ''Why does he bark at night?'')"

definition stuck_env :: env where
  \<comment> \<open>as \<open>calm_env\<close>, but removing the file raises \<^verbatim>\<open>OSError\<close>\<close>
  "stuck_env = calm_env\<lparr>os_remove := False\<rparr>"

definition unreadable_env :: env where
  \<comment> \<open>as \<open>calm_env\<close>, but reading the size of the saved file raises\<close>
  "unreadable_env = calm_env\<lparr>os_getsize := None\<rparr>"


definition quota_env :: env where
  \<comment> \<open>as \<open>calm_env\<close>, but every call to the service raises a quota error\<close>
  "quota_env = calm_env\<lparr>generate_content := quota_service\<rparr>"

section \<open>Validation: proofs\<close>

lemma strip_empty_iff: "strip s = [] \<longleftrightarrow> list_all isspace s"
proof
  assume "strip s = []"
  then have a: "\<forall>x\<in>set (dropWhile isspace s). isspace x"
    by (simp add: strip_def)
  have "dropWhile isspace s = []"
  proof (rule ccontr)
    assume n: "dropWhile isspace s \<noteq> []"
    then have "\<not> isspace (hd (dropWhile isspace s))" by (rule hd_dropWhile)
    moreover have "hd (dropWhile isspace s) \<in> set (dropWhile isspace s)"
      using n by (rule hd_in_set)
    ultimately show False using a by blast
  qed
  then show "list_all isspace s" by (simp add: list_all_iff)
next
  assume "list_all isspace s"
  then show "strip s = []"
    by (auto simp: strip_def list_all_iff dest: set_dropWhileD)
qed

lemma field_missing_blank: "field_missing data field = blank data field"
  by (auto simp: field_missing_def blank_def dict_get_def strip_empty_iff split: option.splits)

lemma lower_valid_pet_types: "map lower valid_pet_types = valid_pet_types"
  by (simp add: valid_pet_types_def lower_def lower_char_def upper_letters_def lower_letters_def)

lemma known_pet_type_iff: "known_pet_type t \<longleftrightarrow> lower t \<in> set valid_pet_types"
proof -
  have "known_pet_type t \<longleftrightarrow> lower t \<in> set (map lower valid_pet_types)"
    by (auto simp: known_pet_type_def same_ignoring_case_def list_ex_iff)
  then show ?thesis by (simp only: lower_valid_pet_types)
qed

lemma check_required_fields:
  "check_required data required_fields =
     (if blank data ''pet_name'' then Some ''pet_name''
      else if blank data ''pet_type'' then Some ''pet_type''
      else if blank data ''pet_breed'' then Some ''pet_breed'' else None)"
  by (simp add: required_fields_def field_missing_blank)

lemma not_blank_present: "\<not> blank data field \<Longrightarrow> \<exists>v. data field = Some v \<and> dict_get data field [] = v"
  by (auto simp: blank_def dict_get_def split: option.splits)

lemma validate_cases:
  "validate_input_data data = Inr
     (if blank data ''pet_name'' then (False, Some ''Missing required field: pet_name'')
      else if blank data ''pet_type'' then (False, Some ''Missing required field: pet_type'')
      else if blank data ''pet_breed'' then (False, Some ''Missing required field: pet_breed'')
      else if \<not> known_pet_type (dict_get data ''pet_type'' []) then (False, Some ''Invalid pet type'')
      else if length (dict_get data ''pet_name'' []) > 50
        then (False, Some ''Pet name too long (max 50 characters)'')
      else if length (dict_get data ''behavior_desc'' []) > 2000
        then (False, Some ''Behavior description too long (max 2000 characters)'')
      else (True, None))"
proof (cases "blank data ''pet_name'' \<or> blank data ''pet_type'' \<or> blank data ''pet_breed''")
  case True
  then show ?thesis
    by (auto simp: validate_input_data_def check_required_fields)
next
  case False
  then obtain n t where n: "data ''pet_name'' = Some n" "dict_get data ''pet_name'' [] = n"
    and t: "data ''pet_type'' = Some t" "dict_get data ''pet_type'' [] = t"
    using not_blank_present by blast
  with False show ?thesis
    by (simp add: validate_input_data_def check_required_fields subscript_def known_pet_type_iff)
qed


lemma first_failure_checks:
  "first_failure (checks data) =
     (if blank data ''pet_name'' then Some ''Missing required field: pet_name''
      else if blank data ''pet_type'' then Some ''Missing required field: pet_type''
      else if blank data ''pet_breed'' then Some ''Missing required field: pet_breed''
      else if \<not> known_pet_type (dict_get data ''pet_type'' []) then Some ''Invalid pet type''
      else if length (dict_get data ''pet_name'' []) > 50
        then Some ''Pet name too long (max 50 characters)''
      else if length (dict_get data ''behavior_desc'' []) > 2000
        then Some ''Behavior description too long (max 2000 characters)''
      else None)"
  by (simp add: first_failure_def checks_def)

lemma violates_iff_failure: "violates data \<longleftrightarrow> first_failure (checks data) \<noteq> None"
  by (simp add: first_failure_checks violates_def)

lemma rex_not_violating: "\<not> violates (extract_pet_data rex_form)"
  by (simp add: violates_def blank_def extract_pet_data_def rex_form_def dict_get_def strip_def
      isspace_def whitespace_def known_pet_type_iff valid_pet_types_def lower_def lower_char_def
      upper_letters_def lower_letters_def)

lemma lizard_violating: "violates lizard_form"
  by (simp add: violates_def blank_def lizard_form_def dict_get_def)

text \<open>
  C2. The validator fails exactly when a required field (pet_name, pet_type, pet_breed) is
  absent, empty or whitespace-only, or pet_type is none of the eight valid types compared
  without regard to case, or pet_name is longer than 50 characters, or behavior_desc is
  longer than 2000 characters; otherwise it succeeds. It never raises, and it is a function
  of the record alone: it reads no state and returns none.
\<close>

theorem validator_fails_exactly_when_violating:
  "((\<exists>msg. validate_input_data data = Inr (False, Some msg)) \<longleftrightarrow> violates data)
   \<and> (validate_input_data data = Inr (True, None) \<longleftrightarrow> \<not> violates data)"
  by (simp add: validate_cases violates_def)

theorem validator_fails_exactly_when_violating_witness:
  "validate_input_data (extract_pet_data rex_form) = Inr (True, None)
   \<and> (\<exists>msg. validate_input_data lizard_form = Inr (False, Some msg))"
proof
  show "validate_input_data (extract_pet_data rex_form) = Inr (True, None)"
    using validator_fails_exactly_when_violating [of "extract_pet_data rex_form"]
      rex_not_violating by blast
  show "\<exists>msg. validate_input_data lizard_form = Inr (False, Some msg)"
    using validator_fails_exactly_when_violating [of lizard_form] lizard_violating by blast
qed

text \<open>
  C10. When several rules are violated at once, the validator reports the message of the
  first failing check in the fixed order: missing pet_name, missing pet_type, missing
  pet_breed, invalid pet type, pet_name over 50 characters, behavior_desc over 2000
  characters. A record with an empty pet_name and an invalid pet_type gets the message for
  the missing pet_name.
\<close>

theorem validator_reports_first_failing_check:
  "validate_input_data data =
     Inr (case first_failure (checks data) of
            Some msg \<Rightarrow> (False, Some msg)
          | None \<Rightarrow> (True, None))"
  by (simp add: validate_cases first_failure_checks)

theorem validator_reports_first_failing_check_witness:
  "blank lizard_form ''pet_name'' \<and> \<not> known_pet_type (dict_get lizard_form ''pet_type'' [])
   \<and> validate_input_data lizard_form = Inr (False, Some ''Missing required field: pet_name'')"
proof -
  have b: "blank lizard_form ''pet_name''"
    by (simp add: blank_def lizard_form_def dict_get_def)
  have k: "\<not> known_pet_type (dict_get lizard_form ''pet_type'' [])"
    by (simp add: known_pet_type_iff lizard_form_def dict_get_def valid_pet_types_def
        lower_def lower_char_def upper_letters_def lower_letters_def)
  have f: "first_failure (checks lizard_form) = Some ''Missing required field: pet_name''"
    using b by (simp add: first_failure_checks)
  have "validate_input_data lizard_form = Inr (False, Some ''Missing required field: pet_name'')"
    using validator_reports_first_failing_check [of lizard_form] by (simp only: f option.case)
  with b k show ?thesis by blast
qed

section \<open>Generation with retries: proofs\<close>

lemma upt3: "[0..<3] = [0, 1, 2]"
  by (simp add: upt_rec)

lemma generate_unrolled:
  "generate svc prompt =
     (case attempt_once (svc 0 prompt) of
        Inr t \<Rightarrow> (Inr t, 1)
      | Inl ex0 \<Rightarrow>
         (case attempt_once (svc 1 prompt) of
            Inr t \<Rightarrow> (Inr t, 2)
          | Inl ex1 \<Rightarrow>
             (case attempt_once (svc 2 prompt) of
                Inr t \<Rightarrow> (Inr t, 3)
              | Inl ex2 \<Rightarrow> (Inl unavailable, 3))))"
proof (cases "attempt_once (svc 0 prompt)")
  case (Inr t)
  then show ?thesis
    by (simp add: generate_def max_retries_def upt3)
next
  case a0: (Inl ex0)
  show ?thesis
  proof (cases "attempt_once (svc 1 prompt)")
    case (Inr t)
    with a0 show ?thesis
      by (simp add: generate_def max_retries_def upt3)
  next
    case a1: (Inl ex1)
    have two: "Suc (Suc 0) = 2" by simp
    show ?thesis
    proof (cases "attempt_once (svc 2 prompt)")
      case (Inr t)
      with a0 a1 show ?thesis
        by (simp add: generate_def max_retries_def upt3 two)
    next
      case (Inl ex2)
      with a0 a1 show ?thesis
        by (simp add: generate_def max_retries_def upt3 two)
    qed
  qed
qed

lemma attempt_once_fails: "fails r \<Longrightarrow> \<exists>ex. attempt_once r = Inl ex"
  by (cases r) (auto simp: fails_def attempt_once_def)

lemma attempt_once_reply: "t \<noteq> [] \<Longrightarrow> attempt_once (Response t) = Inr t"
  by (simp add: attempt_once_def)

lemma generate_calls_le: "snd (generate svc prompt) \<le> 3"
  by (simp add: generate_unrolled split: sum.splits)

lemma generate_first:
  assumes "svc 0 prompt = Response t" "t \<noteq> []"
  shows "generate svc prompt = (Inr t, 1)"
  using assms by (simp add: generate_unrolled attempt_once_reply)

lemma generate_second:
  assumes "fails (svc 0 prompt)" "svc 1 prompt = Response t" "t \<noteq> []"
  shows "generate svc prompt = (Inr t, 2)"
proof -
  from attempt_once_fails [OF assms(1)]
  obtain ex where e0: "attempt_once (svc 0 prompt) = Inl ex" ..
  have e1: "attempt_once (svc 1 prompt) = Inr t"
    using assms(2,3) by (simp add: attempt_once_reply)
  show ?thesis
    unfolding generate_unrolled e0 e1 by simp
qed

lemma generate_third:
  assumes "fails (svc 0 prompt)" "fails (svc 1 prompt)"
    "svc 2 prompt = Response t" "t \<noteq> []"
  shows "generate svc prompt = (Inr t, 3)"
proof -
  from attempt_once_fails [OF assms(1)]
  obtain ex0 where e0: "attempt_once (svc 0 prompt) = Inl ex0" ..
  from attempt_once_fails [OF assms(2)]
  obtain ex1 where e1: "attempt_once (svc 1 prompt) = Inl ex1" ..
  have e2: "attempt_once (svc 2 prompt) = Inr t"
    using assms(3,4) by (simp add: attempt_once_reply)
  show ?thesis
    unfolding generate_unrolled e0 e1 e2 by simp
qed

lemma generate_exhausted:
  assumes "fails (svc 0 prompt)" "fails (svc 1 prompt)" "fails (svc 2 prompt)"
  shows "generate svc prompt = (Inl unavailable, 3)"
proof -
  from attempt_once_fails [OF assms(1)]
  obtain ex0 where e0: "attempt_once (svc 0 prompt) = Inl ex0" ..
  from attempt_once_fails [OF assms(2)]
  obtain ex1 where e1: "attempt_once (svc 1 prompt) = Inl ex1" ..
  from attempt_once_fails [OF assms(3)]
  obtain ex2 where e2: "attempt_once (svc 2 prompt) = Inl ex2" ..
  show ?thesis
    unfolding generate_unrolled e0 e1 e2 by simp
qed

lemma less_three: "k < (3::nat) \<Longrightarrow> k = 0 \<or> k = 1 \<or> k = 2"
  by arith

text \<open>
  C1. The generation client calls the service at most 3 times. It returns the text of the
  first attempt whose result is non-empty and makes no further call (a success on attempt
  k + 1 means exactly k + 1 calls); when all 3 attempts raise or return an empty result it
  fails, after exactly 3 calls, with the exception that the specification names
  GenerationUnavailable.
\<close>

theorem generation_retries_at_most_three:
  "snd (generate svc prompt) \<le> 3
   \<and> (\<forall>k t. k < 3 \<and> (\<forall>j<k. fails (svc j prompt)) \<and> svc k prompt = Response t \<and> t \<noteq> []
         \<longrightarrow> generate svc prompt = (Inr t, Suc k))
   \<and> ((\<forall>j<3. fails (svc j prompt)) \<longrightarrow> generate svc prompt = (Inl unavailable, 3))"
proof (intro conjI allI impI)
  show "snd (generate svc prompt) \<le> 3" by (rule generate_calls_le)
next
  fix k t
  assume a: "k < 3 \<and> (\<forall>j<k. fails (svc j prompt)) \<and> svc k prompt = Response t \<and> t \<noteq> []"
  then consider "k = 0" | "k = 1" | "k = 2" using less_three by blast
  then show "generate svc prompt = (Inr t, Suc k)"
  proof cases
    case 1
    with a have "svc 0 prompt = Response t" "t \<noteq> []" by simp_all
    then have "generate svc prompt = (Inr t, 1)" by (rule generate_first)
    with 1 show ?thesis by simp
  next
    case 2
    with a have "fails (svc 0 prompt)" "svc 1 prompt = Response t" "t \<noteq> []" by simp_all
    then have "generate svc prompt = (Inr t, 2)" by (rule generate_second)
    with 2 show ?thesis by simp
  next
    case 3
    with a have "fails (svc 0 prompt)" "fails (svc 1 prompt)" "svc 2 prompt = Response t"
      "t \<noteq> []" by simp_all
    then have "generate svc prompt = (Inr t, 3)" by (rule generate_third)
    with 3 show ?thesis by simp
  qed
next
  assume "\<forall>j<3. fails (svc j prompt)"
  then have "fails (svc 0 prompt)" "fails (svc 1 prompt)" "fails (svc 2 prompt)" by simp_all
  then show "generate svc prompt = (Inl unavailable, 3)" by (rule generate_exhausted)
qed

theorem generation_retries_at_most_three_witness:
  "generate second_try_service ''prompt'' = (Inr ''Rex seems happy.'', 2)
   \<and> generate empty_service ''prompt'' = (Inl unavailable, 3)"
proof
  have h: "(1::nat) < 3 \<and> (\<forall>j<1. fails (second_try_service j ''prompt''))
      \<and> second_try_service 1 ''prompt'' = Response ''Rex seems happy.''
      \<and> ''Rex seems happy.'' \<noteq> []"
    by (simp add: second_try_service_def fails_def)
  have "generate second_try_service ''prompt'' = (Inr ''Rex seems happy.'', Suc 1)"
    using generation_retries_at_most_three [of second_try_service "''prompt''"] h by blast
  then show "generate second_try_service ''prompt'' = (Inr ''Rex seems happy.'', 2)"
    by simp
  have e: "\<forall>j<3. fails (empty_service j ''prompt'')"
    by (simp add: empty_service_def fails_def)
  show "generate empty_service ''prompt'' = (Inl unavailable, 3)"
    using generation_retries_at_most_three [of empty_service "''prompt''"] e by blast
qed

section \<open>Prompt construction: proofs\<close>

lemma lookup_insights_default:
  "lower t \<notin> set (map fst pet_type_insights) \<Longrightarrow> lookup_insights t = dog_insights"
  by (simp add: lookup_insights_def pet_type_insights_def)

lemma lookup_insights_lower: "lower a = lower b \<Longrightarrow> lookup_insights a = lookup_insights b"
  by (simp add: lookup_insights_def)

lemma create_enhanced_prompt_present:
  assumes "pet_data ''pet_type'' = Some t" "pet_data ''pet_name'' = Some n"
    "pet_data ''pet_breed'' = Some b"
  shows "create_enhanced_prompt clk pet_data va =
           Inr (strip (prompt_text clk pet_data n t b va (lookup_insights t)))"
  using assms by (simp add: create_enhanced_prompt_def subscript_def)

lemma validate_ok_iff: "validate_input_data data = Inr (True, None) \<longleftrightarrow> \<not> violates data"
  by (simp add: validate_cases violates_def)

lemma not_violates_fields:
  assumes "\<not> violates data"
  shows "\<not> blank data ''pet_name''" "\<not> blank data ''pet_type''" "\<not> blank data ''pet_breed''"
    "known_pet_type (dict_get data ''pet_type'' [])"
  using assms by (simp_all add: violates_def)

lemma validated_fields_present:
  assumes "validate_input_data data = Inr (True, None)"
  shows "\<exists>n t b. data ''pet_name'' = Some n \<and> data ''pet_type'' = Some t
           \<and> data ''pet_breed'' = Some b \<and> lower t \<in> set valid_pet_types"
proof -
  have v: "\<not> violates data" using assms validate_ok_iff by blast
  obtain n where n: "data ''pet_name'' = Some n"
    using not_blank_present [OF not_violates_fields(1) [OF v]] by blast
  obtain t where t: "data ''pet_type'' = Some t" "dict_get data ''pet_type'' [] = t"
    using not_blank_present [OF not_violates_fields(2) [OF v]] by blast
  obtain b where b: "data ''pet_breed'' = Some b"
    using not_blank_present [OF not_violates_fields(3) [OF v]] by blast
  have "lower t \<in> set valid_pet_types"
    using not_violates_fields(4) [OF v] t(2) by (simp add: known_pet_type_iff)
  with n t b show ?thesis by blast
qed

section \<open>Video summary: proofs\<close>

lemma summary_text:
  "s \<noteq> [] \<Longrightarrow> analyze_video_content (PyStr s) =
         (if length s > 1000000 then high_quality_sentence
          else if length s > 100000 then clear_indicators_sentence
          else brief_clip_sentence)"
  by (simp add: analyze_video_content_def)

lemma summary_empty:
  "analyze_video_content PyNone = []" "analyze_video_content (PyStr []) = []"
  "analyze_video_content (PyBytes []) = []"
  by (simp_all add: analyze_video_content_def)

lemma summary_bytes: "b \<noteq> [] \<Longrightarrow> analyze_video_content (PyBytes b) = brief_clip_sentence"
  by (simp add: analyze_video_content_def)

lemma length_nonempty: "0 < length s \<Longrightarrow> s \<noteq> []"
  by auto

text \<open>
  C3 as stated fails: a raw bytes input of length 1,500,000 is claimed to yield the high-quality
  sentence. The size is read from text inputs only, so it yields the brief-clip sentence.
\<close>

theorem bytes_input_gets_brief_clip_counterexample:
  "length (replicate 1500000 (0::nat)) = 1500000
   \<and> analyze_video_content (PyBytes (replicate 1500000 0)) = brief_clip_sentence
   \<and> analyze_video_content (PyBytes (replicate 1500000 0)) \<noteq> high_quality_sentence"
  by (simp add: analyze_video_content_def brief_clip_sentence_def high_quality_sentence_def)

text \<open>
  C3, amended. An empty value (None, the empty text, no bytes) yields the empty string.
  A non-empty text input is summarised by its number of characters alone: more than
  1,000,000 gives the high-quality sentence, more than 100,000 (and at most 1,000,000) the
  clear-indicators sentence, anything else the brief-clip sentence; so a text of length
  1,500,000 gives the high-quality sentence, 500,000 the clear-indicators sentence and
  50,000 the brief-clip sentence. A non-empty bytes input always gives the brief-clip
  sentence.
\<close>

theorem video_summary_by_text_length:
  "analyze_video_content PyNone = [] \<and> analyze_video_content (PyStr []) = []
   \<and> analyze_video_content (PyBytes []) = []
   \<and> (s \<noteq> [] \<longrightarrow> analyze_video_content (PyStr s) =
         (if length s > 1000000 then high_quality_sentence
          else if length s > 100000 then clear_indicators_sentence
          else brief_clip_sentence))
   \<and> (length s = 1500000 \<longrightarrow> analyze_video_content (PyStr s) = high_quality_sentence)
   \<and> (length s = 500000 \<longrightarrow> analyze_video_content (PyStr s) = clear_indicators_sentence)
   \<and> (length s = 50000 \<longrightarrow> analyze_video_content (PyStr s) = brief_clip_sentence)
   \<and> (b \<noteq> [] \<longrightarrow> analyze_video_content (PyBytes b) = brief_clip_sentence)"
proof (intro conjI impI)
  show "analyze_video_content PyNone = []" "analyze_video_content (PyStr []) = []"
    "analyze_video_content (PyBytes []) = []"
    by (rule summary_empty)+
  show "s \<noteq> [] \<Longrightarrow> analyze_video_content (PyStr s) =
         (if length s > 1000000 then high_quality_sentence
          else if length s > 100000 then clear_indicators_sentence
          else brief_clip_sentence)"
    by (rule summary_text)
  show "b \<noteq> [] \<Longrightarrow> analyze_video_content (PyBytes b) = brief_clip_sentence"
    by (rule summary_bytes)
next
  assume l: "length s = 1500000"
  then have "s \<noteq> []" by (intro length_nonempty) simp
  then show "analyze_video_content (PyStr s) = high_quality_sentence"
    using l by (simp add: summary_text)
next
  assume l: "length s = 500000"
  then have "s \<noteq> []" by (intro length_nonempty) simp
  then show "analyze_video_content (PyStr s) = clear_indicators_sentence"
    using l by (simp add: summary_text)
next
  assume l: "length s = 50000"
  then have "s \<noteq> []" by (intro length_nonempty) simp
  then show "analyze_video_content (PyStr s) = brief_clip_sentence"
    using l by (simp add: summary_text)
qed

theorem video_summary_by_text_length_witness:
  "analyze_video_content (PyStr (replicate 1500000 (CHR ''A''))) = high_quality_sentence
   \<and> analyze_video_content (PyStr (replicate 500000 (CHR ''A''))) = clear_indicators_sentence
   \<and> analyze_video_content (PyStr (replicate 50000 (CHR ''A''))) = brief_clip_sentence
   \<and> analyze_video_content (PyBytes [0]) = brief_clip_sentence"
proof (intro conjI)
  have l1: "length (replicate 1500000 (CHR ''A'')) = 1500000" by (rule length_replicate)
  show "analyze_video_content (PyStr (replicate 1500000 (CHR ''A''))) = high_quality_sentence"
    using video_summary_by_text_length [of "replicate 1500000 (CHR ''A'')" "[0]"] l1 by blast
  have l2: "length (replicate 500000 (CHR ''A'')) = 500000" by (rule length_replicate)
  show "analyze_video_content (PyStr (replicate 500000 (CHR ''A''))) = clear_indicators_sentence"
    using video_summary_by_text_length [of "replicate 500000 (CHR ''A'')" "[0]"] l2 by blast
  have l3: "length (replicate 50000 (CHR ''A'')) = 50000" by (rule length_replicate)
  show "analyze_video_content (PyStr (replicate 50000 (CHR ''A''))) = brief_clip_sentence"
    using video_summary_by_text_length [of "replicate 50000 (CHR ''A'')" "[0]"] l3 by blast
  have n: "[0::nat] \<noteq> []" by simp
  show "analyze_video_content (PyBytes [0]) = brief_clip_sentence"
    using video_summary_by_text_length [of "[]" "[0]"] n by blast
qed

section \<open>Species vocabulary: proofs\<close>

lemma hamster_valid: "validate_input_data hamster_data = Inr (True, None)"
  by (simp add: validate_ok_iff violates_def blank_def hamster_data_def dict_get_def
      isspace_def whitespace_def known_pet_type_iff valid_pet_types_def lower_def lower_char_def
      upper_letters_def lower_letters_def)

lemma lookup_listed:
  "lower t \<in> {''hamster'', ''guinea pig'', ''ferret'', ''other''} \<Longrightarrow> lookup_insights t = dog_insights"
  by (auto simp: lookup_insights_def pet_type_insights_def)

lemma contains_prefix: "contains sub (sub @ ys)"
proof (cases "sub @ ys")
  case Nil
  then show ?thesis by simp
next
  case (Cons c cs)
  have "take (length sub) (sub @ ys) = sub" by simp
  then have "take (length sub) (c # cs) = sub" by (simp only: Cons)
  then have "contains sub (c # cs)" by simp
  then show ?thesis by (simp only: Cons)
qed

lemma contains_append: "contains sub (xs @ sub @ ys)"
proof (induction xs)
  case Nil
  show ?case using contains_prefix [of sub ys] by simp
next
  case (Cons x xs)
  then show ?case by simp
qed

lemma newline_isspace: "isspace (CHR 0x0A)"
  by (simp add: isspace_def whitespace_def)

lemma strip_between:
  assumes "\<not> isspace a" "\<not> isspace b"
  shows "strip (newline @ a # mid @ [b] @ newline) = a # mid @ [b]"
  using assms by (simp add: strip_def newline_def newline_isspace)

lemma contains_in_stripped_lines:
  assumes ls: "ls = pre @ [key] @ post"
    and pre: "pre \<noteq> []" "hd pre \<noteq> []" "\<not> isspace (hd (hd pre))"
    and post: "post \<noteq> []" "last post \<noteq> []" "\<not> isspace (last (last post))"
  shows "contains key (strip (newline @ concat (map (\<lambda>l. l @ newline) ls)))"
proof -
  obtain first pre' where p: "pre = first # pre'"
    using pre(1) by (cases pre) simp_all
  obtain a f where fl: "first = a # f"
    using pre(2) p by (cases first) simp_all
  have a: "\<not> isspace a" using pre(3) p fl by simp
  have q: "post = butlast post @ [butlast (last post) @ [last (last post)]]"
    using post(1,2) by simp
  define P where "P = f @ newline @ concat (map (\<lambda>l. l @ newline) pre')"
  define R where "R = newline @ concat (map (\<lambda>l. l @ newline) (butlast post)) @ butlast (last post)"
  have "concat (map (\<lambda>l. l @ newline) post) =
      concat (map (\<lambda>l. l @ newline) (butlast post)) @ butlast (last post)
        @ [last (last post)] @ newline"
    by (subst q) simp
  then have "newline @ concat (map (\<lambda>l. l @ newline) ls) =
      newline @ a # (P @ key @ R) @ [last (last post)] @ newline"
    by (simp add: ls p fl P_def R_def)
  then have "strip (newline @ concat (map (\<lambda>l. l @ newline) ls)) =
      strip (newline @ a # (P @ key @ R) @ [last (last post)] @ newline)"
    by (rule arg_cong)
  also have "\<dots> = a # (P @ key @ R) @ [last (last post)]"
    by (rule strip_between [OF a post(3)])
  also have "\<dots> = (a # P) @ key @ (R @ [last (last post)])" by simp
  finally show ?thesis by (simp only: contains_append)
qed

lemma prompt_lines_length: "length (prompt_lines clk d n t b va i) = 46"
  by (simp add: prompt_lines_def)

lemma prompt_lines_first:
  "hd (prompt_lines clk d n t b va i) \<noteq> []"
  "hd (hd (prompt_lines clk d n t b va i)) = CHR ''Y''"
  by (simp_all add: prompt_lines_def)

lemma prompt_lines_last:
  "last (prompt_lines clk d n t b va i) \<noteq> []"
  "last (last (prompt_lines clk d n t b va i)) = CHR ''.''"
  by (simp_all add: prompt_lines_def)

lemma prompt_lines_vocabulary:
  "prompt_lines clk d n t b va i ! 17 = glyph_bullet @ '' Key Behaviors: '' @ behaviors i"
  "prompt_lines clk d n t b va i ! 18 = glyph_bullet @ '' Emotional States: '' @ emotions i"
  "prompt_lines clk d n t b va i ! 19 =
     glyph_bullet @ '' Health Indicators: '' @ health_indicators i"
  by (simp_all add: prompt_lines_def)

lemma not_space: "\<not> isspace (CHR ''Y'')" "\<not> isspace (CHR ''.'')"
  by (simp_all add: isspace_def whitespace_def)

lemma prompt_contains_line:
  assumes "0 < k" "k < 45"
  shows "contains (prompt_lines clk d n t b va i ! k) (strip (prompt_text clk d n t b va i))"
proof -
  let ?ls = "prompt_lines clk d n t b va i"
  have len: "length ?ls = 46" by (rule prompt_lines_length)
  have split: "?ls = take k ?ls @ [?ls ! k] @ drop (Suc k) ?ls"
    using assms len by (simp add: id_take_nth_drop [symmetric])
  have "length (take k ?ls) = k" using assms len by simp
  with assms have pre: "take k ?ls \<noteq> []" by auto
  have hd: "hd (take k ?ls) = hd ?ls" using assms by (simp add: hd_take)
  have "length (drop (Suc k) ?ls) = 45 - k" using assms len by simp
  with assms have post: "drop (Suc k) ?ls \<noteq> []" by auto
  have last: "last (drop (Suc k) ?ls) = last ?ls" using assms len by (simp add: last_drop)
  show ?thesis
    unfolding prompt_text_def
    by (rule contains_in_stripped_lines [OF split pre _ _ post])
      (simp_all add: hd last prompt_lines_first prompt_lines_last not_space)
qed

lemma built_prompt_shape:
  assumes "create_enhanced_prompt clk pet_data va = Inr prompt" "pet_data ''pet_type'' = Some t"
  shows "\<exists>n b. prompt = strip (prompt_text clk pet_data n t b va (lookup_insights t))"
proof (cases "pet_data ''pet_name''")
  case None
  with assms show ?thesis by (simp add: create_enhanced_prompt_def subscript_def)
next
  case n: (Some n)
  show ?thesis
  proof (cases "pet_data ''pet_breed''")
    case None
    with assms n show ?thesis by (simp add: create_enhanced_prompt_def subscript_def)
  next
    case (Some b)
    from create_enhanced_prompt_present [OF assms(2) n Some, of clk va] assms(1)
    have "prompt = strip (prompt_text clk pet_data n t b va (lookup_insights t))" by simp
    then show ?thesis by (intro exI)
  qed
qed

lemma prompt_has_vocabulary:
  assumes "create_enhanced_prompt clk pet_data va = Inr prompt" "pet_data ''pet_type'' = Some t"
  shows "contains (glyph_bullet @ '' Key Behaviors: '' @ behaviors (lookup_insights t)) prompt"
    and "contains (glyph_bullet @ '' Emotional States: '' @ emotions (lookup_insights t)) prompt"
    and "contains (glyph_bullet @ '' Health Indicators: ''
           @ health_indicators (lookup_insights t)) prompt"
proof -
  from built_prompt_shape [OF assms]
  obtain n b where p: "prompt = strip (prompt_text clk pet_data n t b va (lookup_insights t))"
    by auto
  have k: "(0::nat) < 17" "(17::nat) < 45" "(0::nat) < 18" "(18::nat) < 45"
    "(0::nat) < 19" "(19::nat) < 45"
    by simp_all
  show "contains (glyph_bullet @ '' Key Behaviors: '' @ behaviors (lookup_insights t)) prompt"
    using prompt_contains_line [OF k(1,2), of clk pet_data n t b va "lookup_insights t"]
    by (simp only: prompt_lines_vocabulary p)
  show "contains (glyph_bullet @ '' Emotional States: '' @ emotions (lookup_insights t)) prompt"
    using prompt_contains_line [OF k(3,4), of clk pet_data n t b va "lookup_insights t"]
    by (simp only: prompt_lines_vocabulary p)
  show "contains (glyph_bullet @ '' Health Indicators: ''
           @ health_indicators (lookup_insights t)) prompt"
    using prompt_contains_line [OF k(5,6), of clk pet_data n t b va "lookup_insights t"]
    by (simp only: prompt_lines_vocabulary p)
qed

lemma validated_prompt_exists:
  assumes "validate_input_data pet_data = Inr (True, None)"
  shows "\<exists>prompt. create_enhanced_prompt clk pet_data va = Inr prompt"
proof -
  from validated_fields_present [OF assms]
  obtain n t b where "pet_data ''pet_name'' = Some n" "pet_data ''pet_type'' = Some t"
    "pet_data ''pet_breed'' = Some b"
    by auto
  then show ?thesis
    by (simp add: create_enhanced_prompt_present)
qed

lemma dog_vocabulary:
  "behaviors dog_insights =
     ''tail wagging patterns, ear positioning, play bows, panting, barking types''"
  "emotions dog_insights = ''excitement, anxiety, fear, dominance, submission, contentment''"
  "health_indicators dog_insights =
     ''gait analysis, breathing patterns, appetite changes, energy levels''"
  by (simp_all add: dog_insights_def)

text \<open>
  C8. For a validated record whose species has no row in the vocabulary table (hamster,
  guinea pig, ferret, other, in any letter case), the prompt builder returns a prompt that
  contains the three vocabulary lines of the dog entry: its behaviors, its emotions and
  its health indicators. For every validated record the returned prompt contains the
  vocabulary lines of the entry looked up for its species, and the lookup does not depend
  on the letter case of the species.
\<close>

theorem species_without_row_uses_dog_vocabulary:
  "(validate_input_data pet_data = Inr (True, None) \<and> pet_data ''pet_type'' = Some t
      \<and> lower t \<notin> set (map fst pet_type_insights)
     \<longrightarrow> (\<exists>prompt. create_enhanced_prompt clk pet_data va = Inr prompt
            \<and> contains (glyph_bullet @ '' Key Behaviors: ''
                 @ ''tail wagging patterns, ear positioning, play bows, panting, barking types'')
                prompt
            \<and> contains (glyph_bullet @ '' Emotional States: ''
                 @ ''excitement, anxiety, fear, dominance, submission, contentment'') prompt
            \<and> contains (glyph_bullet @ '' Health Indicators: ''
                 @ ''gait analysis, breathing patterns, appetite changes, energy levels'')
                prompt))
   \<and> (validate_input_data pet_data = Inr (True, None) \<and> pet_data ''pet_type'' = Some t
     \<longrightarrow> (\<exists>prompt. create_enhanced_prompt clk pet_data va = Inr prompt
            \<and> contains (glyph_bullet @ '' Key Behaviors: '' @ behaviors (lookup_insights t))
                prompt
            \<and> contains (glyph_bullet @ '' Emotional States: '' @ emotions (lookup_insights t))
                prompt
            \<and> contains (glyph_bullet @ '' Health Indicators: ''
                 @ health_indicators (lookup_insights t)) prompt))
   \<and> (lower t \<in> {''hamster'', ''guinea pig'', ''ferret'', ''other''}
        \<longrightarrow> lookup_insights t = dog_insights)
   \<and> (same_ignoring_case t u \<longrightarrow> lookup_insights t = lookup_insights u)"
proof (intro conjI impI)
  assume a: "validate_input_data pet_data = Inr (True, None) \<and> pet_data ''pet_type'' = Some t
      \<and> lower t \<notin> set (map fst pet_type_insights)"
  then have v: "validate_input_data pet_data = Inr (True, None)"
    and pt: "pet_data ''pet_type'' = Some t"
    and nr: "lower t \<notin> set (map fst pet_type_insights)"
    by simp_all
  from validated_prompt_exists [OF v]
  obtain prompt where p: "create_enhanced_prompt clk pet_data va = Inr prompt" ..
  from nr have d: "lookup_insights t = dog_insights" by (rule lookup_insights_default)
  note voc = prompt_has_vocabulary [OF p pt, unfolded d dog_vocabulary]
  from p voc show "\<exists>prompt. create_enhanced_prompt clk pet_data va = Inr prompt
            \<and> contains (glyph_bullet @ '' Key Behaviors: ''
                 @ ''tail wagging patterns, ear positioning, play bows, panting, barking types'')
                prompt
            \<and> contains (glyph_bullet @ '' Emotional States: ''
                 @ ''excitement, anxiety, fear, dominance, submission, contentment'') prompt
            \<and> contains (glyph_bullet @ '' Health Indicators: ''
                 @ ''gait analysis, breathing patterns, appetite changes, energy levels'')
                prompt"
    by (intro exI conjI)
next
  assume a: "validate_input_data pet_data = Inr (True, None) \<and> pet_data ''pet_type'' = Some t"
  then have v: "validate_input_data pet_data = Inr (True, None)"
    and pt: "pet_data ''pet_type'' = Some t"
    by simp_all
  from validated_prompt_exists [OF v]
  obtain prompt where p: "create_enhanced_prompt clk pet_data va = Inr prompt" ..
  from p prompt_has_vocabulary [OF p pt]
  show "\<exists>prompt. create_enhanced_prompt clk pet_data va = Inr prompt
            \<and> contains (glyph_bullet @ '' Key Behaviors: '' @ behaviors (lookup_insights t))
                prompt
            \<and> contains (glyph_bullet @ '' Emotional States: '' @ emotions (lookup_insights t))
                prompt
            \<and> contains (glyph_bullet @ '' Health Indicators: ''
                 @ health_indicators (lookup_insights t)) prompt"
    by (intro exI conjI)
next
  assume "lower t \<in> {''hamster'', ''guinea pig'', ''ferret'', ''other''}"
  then show "lookup_insights t = dog_insights" by (rule lookup_listed)
next
  assume "same_ignoring_case t u"
  then have "lower t = lower u" by (simp only: same_ignoring_case_def)
  then show "lookup_insights t = lookup_insights u" by (rule lookup_insights_lower)
qed

theorem species_without_row_uses_dog_vocabulary_witness:
  "(\<exists>prompt. create_enhanced_prompt ''2025-01-01 12:00'' hamster_data [] = Inr prompt
      \<and> contains (glyph_bullet @ '' Key Behaviors: ''
           @ ''tail wagging patterns, ear positioning, play bows, panting, barking types'')
          prompt
      \<and> contains (glyph_bullet @ '' Emotional States: ''
           @ ''excitement, anxiety, fear, dominance, submission, contentment'') prompt
      \<and> contains (glyph_bullet @ '' Health Indicators: ''
           @ ''gait analysis, breathing patterns, appetite changes, energy levels'') prompt)
   \<and> lookup_insights ''Hamster'' = dog_insights
   \<and> lookup_insights ''Hamster'' = lookup_insights ''hAMSTER''"
proof (intro conjI)
  have l: "lower ''Hamster'' = ''hamster''" "lower ''hAMSTER'' = ''hamster''"
    by (simp_all add: lower_def lower_char_def upper_letters_def lower_letters_def)
  have h: "validate_input_data hamster_data = Inr (True, None)
      \<and> hamster_data ''pet_type'' = Some ''Hamster''
      \<and> lower ''Hamster'' \<notin> set (map fst pet_type_insights)"
    by (simp add: hamster_valid l) (simp add: hamster_data_def pet_type_insights_def)
  have m: "lower ''Hamster'' \<in> {''hamster'', ''guinea pig'', ''ferret'', ''other''}"
    by (simp add: l)
  have c: "same_ignoring_case ''Hamster'' ''hAMSTER''"
    by (simp add: same_ignoring_case_def l)
  note inst = species_without_row_uses_dog_vocabulary
    [of hamster_data "''Hamster''" "''2025-01-01 12:00''" "[]" "''hAMSTER''"]
  show "\<exists>prompt. create_enhanced_prompt ''2025-01-01 12:00'' hamster_data [] = Inr prompt
      \<and> contains (glyph_bullet @ '' Key Behaviors: ''
           @ ''tail wagging patterns, ear positioning, play bows, panting, barking types'')
          prompt
      \<and> contains (glyph_bullet @ '' Emotional States: ''
           @ ''excitement, anxiety, fear, dominance, submission, contentment'') prompt
      \<and> contains (glyph_bullet @ '' Health Indicators: ''
           @ ''gait analysis, breathing patterns, appetite changes, energy levels'') prompt"
    by (rule inst [THEN conjunct1, THEN mp, OF h])
  show "lookup_insights ''Hamster'' = dog_insights"
    by (rule inst [THEN conjunct2, THEN conjunct2, THEN conjunct1, THEN mp, OF m])
  show "lookup_insights ''Hamster'' = lookup_insights ''hAMSTER''"
    by (rule inst [THEN conjunct2, THEN conjunct2, THEN conjunct2, THEN mp, OF c])
qed

section \<open>The request handler: proofs\<close>

lemma validate_returns: "\<exists>ok msg. validate_input_data data = Inr (ok, msg)"
  by (simp add: validate_cases)

lemma extract_pet_data_keys:
  "extract_pet_data f ''pet_name'' = Some (strip (dict_get f ''pet_name'' []))"
  "extract_pet_data f ''pet_type'' = Some (strip (dict_get f ''pet_type'' []))"
  "extract_pet_data f ''pet_breed'' = Some (strip (dict_get f ''pet_breed'' []))"
  "extract_pet_data f ''query'' = None"
  by (simp_all add: extract_pet_data_def)

lemma prompt_built:
  "create_enhanced_prompt clk (extract_pet_data f) va =
     Inr (strip (prompt_text clk (extract_pet_data f)
        (strip (dict_get f ''pet_name'' [])) (strip (dict_get f ''pet_type'' []))
        (strip (dict_get f ''pet_breed'' [])) va
        (lookup_insights (strip (dict_get f ''pet_type'' [])))))"
  by (rule create_enhanced_prompt_present) (rule extract_pet_data_keys)+

lemma built_prompt_eq:
  "create_enhanced_prompt (now e) (extract_pet_data (form req)) (fst (process_video e req fs))
     = Inr (built_prompt e req fs)"
  by (simp add: built_prompt_def prompt_built)

lemma analyze_behavior_valid:
  assumes "passes_validation req"
  shows "analyze_behavior e req fs =
     ((case fst (generate (generate_content e) (built_prompt e req fs)) of
         Inl ex \<Rightarrow> error_response ex
       | Inr t \<Rightarrow> success_response (extract_pet_data (form req)) t),
      snd (process_video e req fs))"
proof -
  have v: "validate_input_data (extract_pet_data (form req)) = Inr (True, None)"
    using assms by (simp only: passes_validation_def)
  obtain va fs' where pv: "process_video e req fs = (va, fs')"
    by (cases "process_video e req fs")
  have bp: "create_enhanced_prompt (now e) (extract_pet_data (form req)) va
     = Inr (built_prompt e req fs)"
    using built_prompt_eq [of e req fs] pv by simp
  show ?thesis
    by (cases "fst (generate (generate_content e) (built_prompt e req fs))")
      (simp_all add: analyze_behavior_def analyze_behavior_body_def v pv bp)
qed

lemma analyze_behavior_invalid:
  assumes "\<not> passes_validation req"
  shows "\<exists>msg. analyze_behavior e req fs = (invalid_response msg, fs)"
proof -
  obtain ok msg where r: "validate_input_data (extract_pet_data (form req)) = Inr (ok, msg)"
    using validate_returns by blast
  have "\<not> ok"
  proof
    assume ok
    then have "msg = None" using r by (auto simp: validate_cases split: if_splits)
    with \<open>ok\<close> r assms show False by (simp add: passes_validation_def)
  qed
  then have "analyze_behavior e req fs =
      (invalid_response (case msg of None \<Rightarrow> ''None'' | Some m \<Rightarrow> m), fs)"
    by (simp add: analyze_behavior_def analyze_behavior_body_def r)
  then show ?thesis by (rule exI)
qed

lemma files_after_request:
  "snd (analyze_behavior e req fs) =
     (if passes_validation req then snd (process_video e req fs) else fs)"
proof (cases "passes_validation req")
  case True
  then show ?thesis by (simp add: analyze_behavior_valid)
next
  case False
  from analyze_behavior_invalid [OF False, of e fs]
  obtain msg where "analyze_behavior e req fs = (invalid_response msg, fs)" ..
  with False show ?thesis by simp
qed


lemma process_video_captured:
  "has_captured req \<Longrightarrow>
     fst (process_video e req fs) = process_captured e (dict_get (form req) ''captured_video'' [])"
  by (simp add: process_video_def split: prod.splits)

lemma process_video_upload:
  "\<not> has_captured req \<Longrightarrow> accepted_upload req = Some filename \<Longrightarrow>
     fst (process_video e req fs) = fst (process_upload e filename fs)"
  by (simp add: process_video_def split: prod.splits)

lemma process_video_none:
  "\<not> has_captured req \<Longrightarrow> accepted_upload req = None \<Longrightarrow> fst (process_video e req fs) = []"
  by (simp add: process_video_def)

lemma process_video_files:
  "snd (process_video e req fs) =
     (case accepted_upload req of
        None \<Rightarrow> fs
      | Some filename \<Rightarrow> snd (process_upload e filename fs))"
  by (simp add: process_video_def split: prod.splits option.splits)

lemma process_upload_inspected:
  assumes "file_save e = Saved" "os_getsize e = Some n"
  shows "process_upload e filename fs =
     (upload_summary n,
      if os_remove e then fs - {video_path e filename} else insert (video_path e filename) fs)"
  using assms by (simp add: process_upload_def save_and_inspect_def Let_def)


lemma process_upload_getsize_raises:
  assumes "file_save e = Saved" "os_getsize e = None"
  shows "process_upload e filename fs = (upload_fallback, insert (video_path e filename) fs)"
  using assms by (simp add: process_upload_def save_and_inspect_def Let_def)

lemma process_captured_decoded:
  assumes "split_comma cv = Inr (header, video_data)" "b64decode e video_data = Some video_bytes"
  shows "process_captured e cv = analyze_video_content (PyStr video_data)"
  using assms by (simp add: process_captured_def decode_and_summarize_def)



lemma rex_passes: "passes_validation rex_request" "passes_validation upload_request"
  "passes_validation both_request"
proof -
  have v: "validate_input_data (extract_pet_data rex_form) = Inr (True, None)"
    using rex_not_violating by (simp add: validate_ok_iff)
  have same: "extract_pet_data (rex_form(''captured_video'' \<mapsto> c)) = extract_pet_data rex_form"
    for c
    by (simp add: extract_pet_data_def dict_get_def)
  show "passes_validation rex_request" "passes_validation upload_request"
    by (simp_all add: passes_validation_def rex_request_def upload_request_def v)
  show "passes_validation both_request"
    by (simp add: passes_validation_def both_request_def same v)
qed

lemma clip_accepted: "accepted_upload upload_request = Some ''clip.mp4''"
  "accepted_upload both_request = Some ''clip.mp4''"
  by (simp_all add: accepted_upload_def upload_request_def both_request_def allowed_file_def
      extension_def allowed_extensions_def lower_def lower_char_def upper_letters_def
      lower_letters_def)

lemma no_captured: "\<not> has_captured upload_request" "\<not> has_captured rex_request"
  by (simp_all add: has_captured_def upload_request_def rex_request_def rex_form_def dict_get_def)

lemma both_captured: "has_captured both_request"
  "dict_get (form both_request) ''captured_video'' [] = ''data:video/webm;base64,AAAA''"
  by (simp_all add: has_captured_def both_request_def dict_get_def startswith_def)

lemma clip_path: "video_path calm_env ''clip.mp4'' = ''static/uploads/video_1700000000_clip.mp4''"
  by (simp add: video_path_def calm_env_def upload_folder_def str_nat.simps digit_char_def)

lemma happy_generate:
  assumes "generate_content e = happy_service"
  shows "fst (generate (generate_content e) prompt) = Inr ''Rex seems happy.''"
proof -
  have "generate happy_service prompt = (Inr ''Rex seems happy.'', 1)"
    by (rule generate_first) (simp_all add: happy_service_def)
  with assms show ?thesis by simp
qed


lemma happy_response:
  assumes "passes_validation req" "generate_content e = happy_service"
  shows "fst (analyze_behavior e req fs) =
           success_response (extract_pet_data (form req)) ''Rex seems happy.''"
  by (simp add: analyze_behavior_valid [OF assms(1)] happy_generate [OF assms(2)])

lemma calm_settings:
  "file_save calm_env = Saved" "os_getsize calm_env = Some 2048" "os_remove calm_env"
  "generate_content calm_env = happy_service" "b64decode calm_env ''AAAA'' = Some [0, 0, 0]"
  by (simp_all add: calm_env_def)

lemma stuck_settings:
  "file_save stuck_env = Saved" "os_getsize stuck_env = Some 2048" "\<not> os_remove stuck_env"
  "generate_content stuck_env = happy_service"
  "video_path stuck_env filename = video_path calm_env filename"
  by (simp_all add: stuck_env_def calm_env_def video_path_def)

lemma unreadable_settings:
  "file_save unreadable_env = Saved" "os_getsize unreadable_env = None"
  "generate_content unreadable_env = happy_service"
  "video_path unreadable_env filename = video_path calm_env filename"
  by (simp_all add: unreadable_env_def calm_env_def video_path_def)


section \<open>Temporary files\<close>

text \<open>
  C4 as stated fails: the request uploads \<^verbatim>\<open>clip.mp4\<close>, saving and reading the size succeed,
  and removing the file raises \<^verbatim>\<open>OSError\<close>, which the handler ignores. The request succeeds and
  the temporary file is still on disk when the response is returned.
\<close>

theorem temp_file_left_when_removal_fails_counterexample:
  "accepted_upload upload_request = Some ''clip.mp4''
   \<and> fst (analyze_behavior stuck_env upload_request {}) =
       success_response (extract_pet_data (form upload_request)) ''Rex seems happy.''
   \<and> snd (analyze_behavior stuck_env upload_request {}) =
       {''static/uploads/video_1700000000_clip.mp4''}"
proof (intro conjI)
  show "accepted_upload upload_request = Some ''clip.mp4''" by (rule clip_accepted)
  show "fst (analyze_behavior stuck_env upload_request {}) =
       success_response (extract_pet_data (form upload_request)) ''Rex seems happy.''"
    by (rule happy_response [OF rex_passes(2) stuck_settings(4)])
  have "snd (analyze_behavior stuck_env upload_request {}) =
      snd (process_upload stuck_env ''clip.mp4'' {})"
    by (simp add: files_after_request rex_passes process_video_files clip_accepted)
  also have "\<dots> = {video_path stuck_env ''clip.mp4''}"
    by (simp add: process_upload_inspected [OF stuck_settings(1,2)] stuck_settings(3))
  also have "\<dots> = {''static/uploads/video_1700000000_clip.mp4''}"
    by (simp only: stuck_settings(5) clip_path)
  finally show "snd (analyze_behavior stuck_env upload_request {}) =
       {''static/uploads/video_1700000000_clip.mp4''}" .
qed

text \<open>
  The same holds when reading the size of the saved file raises: the handler falls back to
  its fixed sentence and never reaches the removal.
\<close>

lemma temp_file_left_when_inspection_raises:
  "process_video unreadable_env upload_request {} =
     (upload_fallback, {''static/uploads/video_1700000000_clip.mp4''})"
proof -
  have "process_video unreadable_env upload_request {} =
      process_upload unreadable_env ''clip.mp4'' {}"
    by (simp add: process_video_def clip_accepted no_captured split: prod.splits)
  also have "\<dots> = (upload_fallback, {video_path unreadable_env ''clip.mp4''})"
    by (simp add: process_upload_getsize_raises [OF unreadable_settings(1,2)])
  finally show ?thesis by (simp only: unreadable_settings(4) clip_path)
qed

text \<open>
  C4, amended. For a validated request that uploads a video file with an allowed extension,
  when saving the file and reading its size succeed, the handler tries to remove the
  temporary file before it returns: if the removal succeeds the file is gone and no other
  file has changed; if the removal raises, the error is ignored and the file stays. A
  request that fails validation or has no accepted upload writes no file.
\<close>

theorem temp_file_removed_when_removal_succeeds:
  "(passes_validation req \<and> accepted_upload req = Some filename
      \<and> file_save e = Saved \<and> os_getsize e = Some n
     \<longrightarrow> snd (analyze_behavior e req fs) =
           (if os_remove e then fs - {video_path e filename}
            else insert (video_path e filename) fs))
   \<and> (\<not> passes_validation req \<or> accepted_upload req = None
        \<longrightarrow> snd (analyze_behavior e req fs) = fs)"
proof (intro conjI impI)
  assume a: "passes_validation req \<and> accepted_upload req = Some filename
      \<and> file_save e = Saved \<and> os_getsize e = Some n"
  then have s: "file_save e = Saved" and g: "os_getsize e = Some n" by simp_all
  from a show "snd (analyze_behavior e req fs) =
           (if os_remove e then fs - {video_path e filename}
            else insert (video_path e filename) fs)"
    by (simp add: files_after_request process_video_files process_upload_inspected [OF s g])
next
  assume "\<not> passes_validation req \<or> accepted_upload req = None"
  then show "snd (analyze_behavior e req fs) = fs"
    by (auto simp: files_after_request process_video_files)
qed

theorem temp_file_removed_when_removal_succeeds_witness:
  "snd (analyze_behavior calm_env upload_request {''static/uploads/old.mp4''}) =
     {''static/uploads/old.mp4''}"
proof -
  have h: "passes_validation upload_request \<and> accepted_upload upload_request = Some ''clip.mp4''
      \<and> file_save calm_env = Saved \<and> os_getsize calm_env = Some 2048"
    by (simp add: rex_passes clip_accepted calm_settings)
  have "snd (analyze_behavior calm_env upload_request {''static/uploads/old.mp4''}) =
      (if os_remove calm_env
       then {''static/uploads/old.mp4''} - {video_path calm_env ''clip.mp4''}
       else insert (video_path calm_env ''clip.mp4'') {''static/uploads/old.mp4''})"
    by (rule temp_file_removed_when_removal_succeeds [THEN conjunct1, THEN mp, OF h])
  then show ?thesis
    by (simp add: calm_settings clip_path)
qed

section \<open>Uploaded and captured video\<close>

lemma summaries_differ: "brief_clip_sentence \<noteq> upload_summary n"
  by (simp add: brief_clip_sentence_def upload_summary_def)

lemma captured_example:
  "process_captured calm_env ''data:video/webm;base64,AAAA'' = brief_clip_sentence"
  by (simp add: process_captured_def decode_and_summarize_def split_comma_def calm_env_def
      analyze_video_content_def)

lemma split_example:
  "split_comma ''data:video/webm;base64,AAAA'' = Inr (''data:video/webm;base64'', ''AAAA'')"
  by (simp add: split_comma_def)

text \<open>
  C5 as stated fails: the request uploads \<^verbatim>\<open>clip.mp4\<close> and also carries a captured video.
  The summary that reaches the prompt builder is the one of the captured video, not the one
  derived from the uploaded file.
\<close>

theorem captured_video_replaces_upload_summary_counterexample:
  "accepted_upload both_request = Some ''clip.mp4''
   \<and> fst (process_upload calm_env ''clip.mp4'' {}) = upload_summary 2048
   \<and> fst (process_video calm_env both_request {}) = brief_clip_sentence
   \<and> brief_clip_sentence \<noteq> upload_summary 2048
   \<and> create_enhanced_prompt (now calm_env) (extract_pet_data (form both_request))
         brief_clip_sentence = Inr (built_prompt calm_env both_request {})"
proof (intro conjI)
  show "accepted_upload both_request = Some ''clip.mp4''" by (rule clip_accepted)
  show "fst (process_upload calm_env ''clip.mp4'' {}) = upload_summary 2048"
    by (simp add: process_upload_inspected [OF calm_settings(1,2)])
  show v: "fst (process_video calm_env both_request {}) = brief_clip_sentence"
    by (simp only: process_video_captured [OF both_captured(1)] both_captured(2)
        captured_example)
  show "brief_clip_sentence \<noteq> upload_summary 2048" by (rule summaries_differ)
  show "create_enhanced_prompt (now calm_env) (extract_pet_data (form both_request))
         brief_clip_sentence = Inr (built_prompt calm_env both_request {})"
    using built_prompt_eq [of calm_env both_request "{}"] by (simp only: v)
qed

text \<open>
  C5, amended. The captured-video path is taken whenever the form's captured_video field is
  non-empty and starts with \<^verbatim>\<open>data:video\<close>, whether or not a video file was uploaded, and its
  summary replaces any summary derived from an uploaded file. Only when no such payload is
  present does the summary of an accepted upload (or the empty string, when there is none)
  reach the prompt builder. When the payload splits at its first comma and the text after
  it decodes, the video summarizer is run on that base64 text, not on the decoded bytes.
  The handler builds its prompt from the record and this summary.
\<close>

theorem captured_video_takes_precedence:
  "(has_captured req \<longrightarrow>
      fst (process_video e req fs) = process_captured e (dict_get (form req) ''captured_video'' []))
   \<and> (\<not> has_captured req \<and> accepted_upload req = Some filename \<longrightarrow>
        fst (process_video e req fs) = fst (process_upload e filename fs))
   \<and> (\<not> has_captured req \<and> accepted_upload req = None \<longrightarrow> fst (process_video e req fs) = [])
   \<and> (split_comma cv = Inr (header, video_data) \<and> b64decode e video_data = Some video_bytes \<longrightarrow>
        process_captured e cv = analyze_video_content (PyStr video_data))
   \<and> create_enhanced_prompt (now e) (extract_pet_data (form req)) (fst (process_video e req fs))
        = Inr (built_prompt e req fs)
   \<and> (passes_validation req \<longrightarrow>
        fst (analyze_behavior e req fs) =
          (case fst (generate (generate_content e) (built_prompt e req fs)) of
             Inl ex \<Rightarrow> error_response ex
           | Inr t \<Rightarrow> success_response (extract_pet_data (form req)) t))"
proof (intro conjI impI)
  assume "has_captured req"
  then show "fst (process_video e req fs) =
      process_captured e (dict_get (form req) ''captured_video'' [])"
    by (rule process_video_captured)
next
  assume "\<not> has_captured req \<and> accepted_upload req = Some filename"
  then show "fst (process_video e req fs) = fst (process_upload e filename fs)"
    by (simp add: process_video_upload)
next
  assume "\<not> has_captured req \<and> accepted_upload req = None"
  then show "fst (process_video e req fs) = []"
    by (simp add: process_video_none)
next
  assume "split_comma cv = Inr (header, video_data) \<and> b64decode e video_data = Some video_bytes"
  then show "process_captured e cv = analyze_video_content (PyStr video_data)"
    by (simp add: process_captured_decoded)
next
  show "create_enhanced_prompt (now e) (extract_pet_data (form req))
      (fst (process_video e req fs)) = Inr (built_prompt e req fs)"
    by (rule built_prompt_eq)
next
  assume "passes_validation req"
  then show "fst (analyze_behavior e req fs) =
          (case fst (generate (generate_content e) (built_prompt e req fs)) of
             Inl ex \<Rightarrow> error_response ex
           | Inr t \<Rightarrow> success_response (extract_pet_data (form req)) t)"
    by (simp add: analyze_behavior_valid)
qed

theorem captured_video_takes_precedence_witness:
  "fst (process_video calm_env both_request {}) = analyze_video_content (PyStr ''AAAA'')
   \<and> fst (process_video calm_env upload_request {}) =
       fst (process_upload calm_env ''clip.mp4'' {})
   \<and> fst (process_video calm_env rex_request {}) = []"
proof (intro conjI)
  note inst = captured_video_takes_precedence
    [of both_request calm_env "{}" "''clip.mp4''" "''data:video/webm;base64,AAAA''"
      "''data:video/webm;base64''" "''AAAA''" "[0, 0, 0]"]
  have d: "split_comma ''data:video/webm;base64,AAAA'' = Inr (''data:video/webm;base64'', ''AAAA'')
      \<and> b64decode calm_env ''AAAA'' = Some [0, 0, 0]"
    by (simp only: split_example calm_settings(5))
  have "fst (process_video calm_env both_request {}) =
      process_captured calm_env (dict_get (form both_request) ''captured_video'' [])"
    by (rule inst [THEN conjunct1, THEN mp, OF both_captured(1)])
  also have "\<dots> = process_captured calm_env ''data:video/webm;base64,AAAA''"
    by (simp only: both_captured(2))
  also have "\<dots> = analyze_video_content (PyStr ''AAAA'')"
    by (rule inst [THEN conjunct2, THEN conjunct2, THEN conjunct2, THEN conjunct1, THEN mp, OF d])
  finally show "fst (process_video calm_env both_request {}) =
      analyze_video_content (PyStr ''AAAA'')" .
  have u: "\<not> has_captured upload_request \<and> accepted_upload upload_request = Some ''clip.mp4''"
    by (simp add: no_captured clip_accepted)
  show "fst (process_video calm_env upload_request {}) =
       fst (process_upload calm_env ''clip.mp4'' {})"
    by (rule captured_video_takes_precedence [THEN conjunct2, THEN conjunct1, THEN mp, OF u])
  have "accepted_upload rex_request = None"
    by (simp add: accepted_upload_def rex_request_def)
  with no_captured(2)
  have r: "\<not> has_captured rex_request \<and> accepted_upload rex_request = None" ..
  show "fst (process_video calm_env rex_request {}) = []"
    by (rule captured_video_takes_precedence
        [THEN conjunct2, THEN conjunct2, THEN conjunct1, THEN mp, OF r])
qed


section \<open>Video failures are recovered\<close>




section \<open>The user's question and the prompt\<close>

lemma barking_data:
  "extract_pet_data barking_form = (extract_pet_data rex_form)(''context'' \<mapsto> ''Why does he bark at night?'')"
  by (rule ext)
    (simp add: extract_pet_data_def barking_form_def rex_form_def dict_get_def strip_def
      isspace_def whitespace_def)

lemma prompt_lines_context:
  "prompt_lines clk (d(''context'' \<mapsto> q)) n t b va i = prompt_lines clk d n t b va i"
  by (simp add: prompt_lines_def dict_get_def)

lemma prompt_context:
  "create_enhanced_prompt clk (d(''context'' \<mapsto> q)) va = create_enhanced_prompt clk d va"
proof -
  have t: "prompt_text clk (d(''context'' \<mapsto> q)) n t b va i = prompt_text clk d n t b va i"
    for n t b i
    by (simp add: prompt_text_def prompt_lines_context)
  have s: "subscript (d(''context'' \<mapsto> q)) ''pet_type'' = subscript d ''pet_type''"
    "subscript (d(''context'' \<mapsto> q)) ''pet_name'' = subscript d ''pet_name''"
    "subscript (d(''context'' \<mapsto> q)) ''pet_breed'' = subscript d ''pet_breed''"
    by (simp_all add: subscript_def)
  show ?thesis
    unfolding create_enhanced_prompt_def s t ..
qed

text \<open>
  C6 fails on the user's question. The handler stores the form's context field under the
  key \<^verbatim>\<open>context\<close>, the prompt builder reads the key \<^verbatim>\<open>query\<close>, which no record has: for the
  form with the question "Why does he bark at night?" the prompt's line reads "Not
  specified", and the prompt is the one of the same form without any question.
\<close>

theorem user_question_missing_from_prompt:
  "extract_pet_data barking_form ''context'' = Some ''Why does he bark at night?''
   \<and> extract_pet_data barking_form ''query'' = None
   \<and> ''What user wants to know: Not specified''
        \<in> set (prompt_lines clk (extract_pet_data barking_form) n t b va i)
   \<and> create_enhanced_prompt clk (extract_pet_data barking_form) va =
       create_enhanced_prompt clk (extract_pet_data rex_form) va"
proof (intro conjI)
  show "extract_pet_data barking_form ''context'' = Some ''Why does he bark at night?''"
    by (simp add: barking_data)
  show q: "extract_pet_data barking_form ''query'' = None"
    by (rule extract_pet_data_keys)
  show "''What user wants to know: Not specified''
        \<in> set (prompt_lines clk (extract_pet_data barking_form) n t b va i)"
    by (simp add: prompt_lines_def dict_get_def q)
  show "create_enhanced_prompt clk (extract_pet_data barking_form) va =
       create_enhanced_prompt clk (extract_pet_data rex_form) va"
    by (simp only: barking_data prompt_context)
qed

section \<open>The message after exhausted retries\<close>

lemma quota_settings: "generate_content quota_env = quota_service"
  by (simp add: quota_env_def calm_env_def)

lemma unavailable_message:
  "user_message (str_exn unavailable) =
     ''Analysis service temporarily unavailable. Please try again.''"
proof -
  have l: "lower ''AI service temporarily unavailable. Please try again.'' =
      ''ai service temporarily unavailable. please try again.''"
    by (simp add: lower_def lower_char_def upper_letters_def lower_letters_def)
  show ?thesis
    by (simp add: unavailable_def user_message_def l)
qed

lemma quota_message:
  "user_message ''429 Quota exceeded for quota metric'' =
     ''Service temporarily at capacity. Please try again in a few minutes.''"
proof -
  have l: "lower ''429 Quota exceeded for quota metric'' =
      ''429 quota exceeded for quota metric''"
    by (simp add: lower_def lower_char_def upper_letters_def lower_letters_def)
  show ?thesis
    by (simp add: user_message_def l)
qed

lemma exhausted_response:
  assumes "passes_validation req"
    "\<forall>k prompt. fails (generate_content e k prompt)"
  shows "fst (analyze_behavior e req fs) = error_response unavailable"
proof -
  have "generate (generate_content e) (built_prompt e req fs) = (Inl unavailable, 3)"
    by (rule generate_exhausted) (simp_all add: assms(2))
  then show ?thesis
    by (simp add: analyze_behavior_valid [OF assms(1)])
qed

text \<open>
  C7 fails on the branching. When the retries are exhausted the handler raises a new
  exception with a fixed text, and the outer handler chooses the message from that text,
  not from the service's error. A service that raises a quota error on every call gets
  status 500 with the generic message, while the text of its own error would have selected
  the capacity message.
\<close>

theorem quota_error_gets_generic_message:
  "fst (analyze_behavior quota_env rex_request fs) =
     \<lparr>status = 500, success = False, analysis = None,
      error = Some ''Analysis service temporarily unavailable. Please try again.'',
      error_code = Some ''ANALYSIS_ERROR'', pet_name = None, pet_type = None\<rparr>
   \<and> user_message (str_exn (Exception ''429 Quota exceeded for quota metric'')) =
       ''Service temporarily at capacity. Please try again in a few minutes.''"
proof
  have "\<forall>k prompt. fails (generate_content quota_env k prompt)"
    by (simp add: quota_settings quota_service_def fails_def)
  with rex_passes(1) have "fst (analyze_behavior quota_env rex_request fs) =
      error_response unavailable"
    by (rule exhausted_response)
  then show "fst (analyze_behavior quota_env rex_request fs) =
     \<lparr>status = 500, success = False, analysis = None,
      error = Some ''Analysis service temporarily unavailable. Please try again.'',
      error_code = Some ''ANALYSIS_ERROR'', pet_name = None, pet_type = None\<rparr>"
    by (simp only: error_response_def unavailable_message)
  show "user_message (str_exn (Exception ''429 Quota exceeded for quota metric'')) =
       ''Service temporarily at capacity. Please try again in a few minutes.''"
    by (simp only: str_exn.simps quota_message)
qed

end
